theory Spec2Isabelle
  imports Complex_Main "HOL-Library.Multiset" "HOL-Library.Product_Lexorder"
    "HOL-Library.List_Lexorder" "HOL-Library.Char_ord"
begin

section \<open>Python values, exceptions and the outside world\<close>

text \<open>
  The pipeline passes schema-less Python values around: parsed JSON documents and the
  dictionaries the components build. They are modelled by one datatype. A dictionary is an
  association list in insertion order (a Python dict has distinct keys; every dictionary
  of the pipeline is keyed by strings). Floats are idealised as real numbers: rounding,
  infinities and NaN are not modelled.
\<close>

datatype pyval =
    PNone
  | PBool bool
  | PInt int
  | PFloat real
  | PStr string
  | PList "pyval list"
  | PTuple "pyval list"
  | PDict "(string \<times> pyval) list"

datatype exn_class =
    TypeError | AttributeError | KeyError | IndexError | ValueError | OverflowError
  | FileNotFoundError | FetchError | NotModelled

text \<open>An exception: its class and the text \<open>str(e)\<close> gives.\<close>

datatype exn = Raise exn_class string

fun str_exn :: "exn \<Rightarrow> string" where
  "str_exn (Raise c m) = m"

text \<open>
  Naive datetimes (year, month, day, hour, minute, second, microsecond), compared
  lexicographically as Python compares them. Timezone-aware datetimes are not modelled.
\<close>

type_synonym datetime = "nat \<times> nat \<times> nat \<times> nat \<times> nat \<times> nat \<times> nat"

definition datetime_min :: datetime where
  "datetime_min = (1, 1, 1, 0, 0, 0, 0)"

text \<open>
  The price table yfinance returns: the rows of its \<open>Close\<close> column, each with the index
  already rendered by \<open>strftime('%Y-%m-%d')\<close> and a close that may be missing (NaN);
  \<open>NoCloseColumn\<close> is a table with rows and no \<open>Close\<close> column.
\<close>

datatype frame = NoCloseColumn | Closes "(string \<times> real option) list"

text \<open>
  Everything the code reaches outside the repository: the network, the clock, the
  environment variable, and the library functions whose behaviour the repository does not
  define. \<open>None\<close> stands for the library call raising.
\<close>

record env =
  http_json :: "string \<Rightarrow> (string \<times> string) list \<Rightarrow> pyval option"
  yf_history :: "string \<Rightarrow> string \<Rightarrow> exn + frame"
  finnhub_api_key :: string
  today :: int
  date_str :: "int \<Rightarrow> string"
  now_stamp :: string
  path_join :: "string \<Rightarrow> string \<Rightarrow> string"
  fromisoformat :: "string \<Rightarrow> datetime option"
  int_of_str :: "string \<Rightarrow> int option"
  float_of_str :: "string \<Rightarrow> real option"
  utc_strftime :: "real \<Rightarrow> string option"
  repr_str :: "pyval \<Rightarrow> string"

subsection \<open>Python primitives\<close>

fun truthy :: "pyval \<Rightarrow> bool" where
  "truthy PNone = False"
| "truthy (PBool b) = b"
| "truthy (PInt n) = (n \<noteq> 0)"
| "truthy (PFloat r) = (r \<noteq> 0)"
| "truthy (PStr s) = (s \<noteq> [])"
| "truthy (PList xs) = (xs \<noteq> [])"
| "truthy (PTuple xs) = (xs \<noteq> [])"
| "truthy (PDict d) = (d \<noteq> [])"

definition dict_get :: "(string \<times> pyval) list \<Rightarrow> string \<Rightarrow> pyval \<Rightarrow> pyval" where
  "dict_get d k dflt = (case map_of d k of None \<Rightarrow> dflt | Some v \<Rightarrow> v)"

text \<open>\<open>x.get(k, dflt)\<close>: only a dict has the method.\<close>

fun py_get :: "pyval \<Rightarrow> string \<Rightarrow> pyval \<Rightarrow> exn + pyval" where
  "py_get (PDict d) k dflt = Inr (dict_get d k dflt)"
| "py_get _ k dflt = Inl (Raise AttributeError ''object has no attribute get'')"

text \<open>\<open>x[k]\<close> with a string key.\<close>

fun py_index :: "pyval \<Rightarrow> string \<Rightarrow> exn + pyval" where
  "py_index (PDict d) k =
     (case map_of d k of None \<Rightarrow> Inl (Raise KeyError k) | Some v \<Rightarrow> Inr v)"
| "py_index _ k = Inl (Raise TypeError ''bad subscript'')"

text \<open>\<open>d[k] = v\<close>: an existing key keeps its place, a new key goes last.\<close>

fun dict_set :: "(string \<times> pyval) list \<Rightarrow> string \<Rightarrow> pyval \<Rightarrow> (string \<times> pyval) list" where
  "dict_set [] k v = [(k, v)]"
| "dict_set ((k', v') # d) k v = (if k' = k then (k, v) # d else (k', v') # dict_set d k v)"

fun hashable :: "pyval \<Rightarrow> bool" where
  "hashable (PList xs) = False"
| "hashable (PDict d) = False"
| "hashable (PTuple xs) = list_all hashable xs"
| "hashable v = True"

definition truncate :: "real \<Rightarrow> int" where
  "truncate r = (if 0 \<le> r then \<lfloor>r\<rfloor> else \<lceil>r\<rceil>)"

definition py_int :: "env \<Rightarrow> pyval \<Rightarrow> exn + int" where
  "py_int E v =
     (case v of
        PInt n \<Rightarrow> Inr n
      | PBool b \<Rightarrow> Inr (if b then 1 else 0)
      | PFloat r \<Rightarrow> Inr (truncate r)
      | PStr s \<Rightarrow> (case int_of_str E s of
                    None \<Rightarrow> Inl (Raise ValueError ''invalid literal for int()'')
                  | Some n \<Rightarrow> Inr n)
      | _ \<Rightarrow> Inl (Raise TypeError ''int() argument''))"

definition py_float :: "env \<Rightarrow> pyval \<Rightarrow> exn + real" where
  "py_float E v =
     (case v of
        PInt n \<Rightarrow> Inr (real_of_int n)
      | PBool b \<Rightarrow> Inr (if b then 1 else 0)
      | PFloat r \<Rightarrow> Inr r
      | PStr s \<Rightarrow> (case float_of_str E s of
                    None \<Rightarrow> Inl (Raise ValueError ''could not convert string to float'')
                  | Some r \<Rightarrow> Inr r)
      | _ \<Rightarrow> Inl (Raise TypeError ''float() argument''))"

text \<open>A comprehension or a key computation over a list stops at the first element that raises.\<close>

fun map_e :: "('a \<Rightarrow> exn + 'b) \<Rightarrow> 'a list \<Rightarrow> exn + 'b list" where
  "map_e f [] = Inr []"
| "map_e f (x # xs) =
     (case f x of
        Inl e \<Rightarrow> Inl e
      | Inr y \<Rightarrow> (case map_e f xs of Inl e \<Rightarrow> Inl e | Inr ys \<Rightarrow> Inr (y # ys)))"

fun filter_e :: "('a \<Rightarrow> exn + bool) \<Rightarrow> 'a list \<Rightarrow> exn + 'a list" where
  "filter_e p [] = Inr []"
| "filter_e p (x # xs) =
     (case p x of
        Inl e \<Rightarrow> Inl e
      | Inr b \<Rightarrow> (case filter_e p xs of
                   Inl e \<Rightarrow> Inl e
                 | Inr ys \<Rightarrow> Inr (if b then x # ys else ys)))"

text \<open>
  \<open>list.sort(key=..., reverse=True)\<close> and \<open>sorted(..., reverse=True)\<close> on keys already
  computed: a stable sort, descending, elements with equal keys keeping their input order
  (the list is reversed, sorted ascending and reversed again).
\<close>

definition sort_desc :: "('k::linorder \<times> 'a) list \<Rightarrow> ('k \<times> 'a) list" where
  "sort_desc kvs = rev (sort_key fst (rev kvs))"

section \<open>Filing fact extractor (sec\_financials.py)\<close>

text \<open>\<open>v.get("fp") == "FY" or v.get("form") in {"10-K", "20-F"}\<close>; membership in a set
  hashes its argument.\<close>

definition is_annual :: "pyval \<Rightarrow> exn + bool" where
  "is_annual v =
     (case py_get v ''fp'' PNone of
        Inl e \<Rightarrow> Inl e
      | Inr fp \<Rightarrow>
          if fp = PStr ''FY'' then Inr True
          else (case py_get v ''form'' PNone of
                  Inl e \<Rightarrow> Inl e
                | Inr form \<Rightarrow>
                    if hashable form then Inr (form = PStr ''10-K'' \<or> form = PStr ''20-F'')
                    else Inl (Raise TypeError ''unhashable type'')))"

text \<open>\<open>parse_date\<close>: any failure inside the \<open>try\<close> gives \<open>datetime.min\<close>.\<close>

definition parse_date :: "env \<Rightarrow> pyval \<Rightarrow> datetime" where
  "parse_date E x =
     (case py_get x ''end'' PNone of
        Inr (PStr s) \<Rightarrow> (case fromisoformat E s of Some d \<Rightarrow> d | None \<Rightarrow> datetime_min)
      | _ \<Rightarrow> datetime_min)"

text \<open>The sort key \<open>(parse_date(v), int(v.get("fy", 0)))\<close>.\<close>

definition sort_key_of :: "env \<Rightarrow> pyval \<Rightarrow> exn + ((datetime \<times> int) \<times> pyval)" where
  "sort_key_of E v =
     (case py_get v ''fy'' (PInt 0) of
        Inl e \<Rightarrow> Inl e
      | Inr fy \<Rightarrow> (case py_int E fy of
                    Inl e \<Rightarrow> Inl e
                  | Inr n \<Rightarrow> Inr ((parse_date E v, n), v)))"

text \<open>The body of \<open>latest_annual_value\<close> once \<open>values\<close> is known to be a sequence \<open>vs\<close>;
  \<open>fallback\<close> is what \<open>values[:]\<close> followed by \<open>.sort\<close> does when no entry is annual.\<close>

definition select_latest :: "env \<Rightarrow> pyval list \<Rightarrow> (exn + pyval list) \<Rightarrow> exn + pyval" where
  "select_latest E vs fallback =
     (case filter_e is_annual vs of
        Inl e \<Rightarrow> Inl e
      | Inr annuals0 \<Rightarrow>
          (case (if annuals0 = [] then fallback else Inr annuals0) of
             Inl e \<Rightarrow> Inl e
           | Inr annuals \<Rightarrow>
               (case map_e (sort_key_of E) annuals of
                  Inl e \<Rightarrow> Inl e
                | Inr keyed \<Rightarrow>
                    (case sort_desc keyed of
                       [] \<Rightarrow> Inr PNone
                     | kv # _ \<Rightarrow> Inr (snd kv)))))"

text \<open>
  \<open>latest_annual_value(values)\<close>. The annotation asks for a list; the other Python values
  fail where the code iterates, calls \<open>.get\<close> on an element, slices or sorts.
\<close>

definition latest_annual_value :: "env \<Rightarrow> pyval \<Rightarrow> exn + pyval" where
  "latest_annual_value E values =
     (case values of
        PList vs \<Rightarrow> select_latest E vs (Inr vs)
      | PTuple vs \<Rightarrow> select_latest E vs (Inl (Raise AttributeError ''tuple has no attribute sort''))
      | PStr s \<Rightarrow> Inl (Raise AttributeError ''str has no attribute get or sort'')
      | PDict d \<Rightarrow> (if d = [] then Inl (Raise TypeError ''unhashable type: slice'')
                    else Inl (Raise AttributeError ''str has no attribute get''))
      | _ \<Rightarrow> Inl (Raise TypeError ''object is not iterable''))"

text \<open>The first of the unit keys USD, USD/shares, pure that the units dict has.\<close>

fun first_unit :: "(string \<times> pyval) list \<Rightarrow> string list \<Rightarrow> pyval" where
  "first_unit u [] = PNone"
| "first_unit u (k # ks) = (case map_of u k of Some v \<Rightarrow> v | None \<Rightarrow> first_unit u ks)"

text \<open>
  The \<open>try\<close> body of \<open>get_us_gaap\<close>. When \<open>units\<close> is not a dict every path through the
  code raises (the \<open>in\<close> test, the subscript with a string, \<open>.values()\<close>, or iterating
  \<open>None\<close>), so that case is one error.
\<close>

definition get_us_gaap_body :: "env \<Rightarrow> pyval \<Rightarrow> string \<Rightarrow> exn + real option" where
  "get_us_gaap_body E facts tag =
     (case py_index facts ''facts'' of
        Inl e \<Rightarrow> Inl e
      | Inr f1 \<Rightarrow>
     (case py_index f1 ''us-gaap'' of
        Inl e \<Rightarrow> Inl e
      | Inr f2 \<Rightarrow>
     (case py_index f2 tag of
        Inl e \<Rightarrow> Inl e
      | Inr tag_data \<Rightarrow>
     (case py_get tag_data ''units'' (PDict []) of
        Inl e \<Rightarrow> Inl e
      | Inr units \<Rightarrow>
     (case units of
        PDict u \<Rightarrow>
          (let usd_values = first_unit u [''USD'', ''USD/shares'', ''pure''];
               usd_values' = (if \<not> truthy usd_values \<and> u \<noteq> [] then snd (hd u) else usd_values)
           in (case latest_annual_value E usd_values' of
                 Inl e \<Rightarrow> Inl e
               | Inr latest \<Rightarrow>
                   if truthy latest
                   then (case py_get latest ''val'' PNone of
                           Inl e \<Rightarrow> Inl e
                         | Inr v \<Rightarrow> (case py_float E v of Inl e \<Rightarrow> Inl e | Inr r \<Rightarrow> Inr (Some r)))
                   else Inr None))
      | _ \<Rightarrow> Inl (Raise TypeError ''units is not a dict''))))))"

definition get_us_gaap :: "env \<Rightarrow> pyval \<Rightarrow> string \<Rightarrow> real option" where
  "get_us_gaap E facts tag =
     (case get_us_gaap_body E facts tag of Inl e \<Rightarrow> None | Inr r \<Rightarrow> r)"

text \<open>Python's \<open>a or b\<close> and truthiness on an optional float.\<close>

definition por :: "real option \<Rightarrow> real option \<Rightarrow> real option" where
  "por a b = (case a of Some x \<Rightarrow> if x \<noteq> 0 then a else b | None \<Rightarrow> b)"

definition otruthy :: "real option \<Rightarrow> bool" where
  "otruthy a = (case a of Some x \<Rightarrow> x \<noteq> 0 | None \<Rightarrow> False)"

definition opt_val :: "real option \<Rightarrow> pyval" where
  "opt_val a = (case a of None \<Rightarrow> PNone | Some r \<Rightarrow> PFloat r)"

definition SEC_BASE :: string where
  "SEC_BASE = ''https://data.sec.gov''"

definition facts_url :: "string \<Rightarrow> string" where
  "facts_url cik = SEC_BASE @ ''/api/xbrl/companyfacts/CIK'' @ cik @ ''.json''"

text \<open>The local variables of \<open>pull_sec_financials\<close>, as functions of the facts document.\<close>

definition revenue_of :: "env \<Rightarrow> pyval \<Rightarrow> real option" where
  "revenue_of E data =
     por (por (get_us_gaap E data ''RevenueFromContractWithCustomerExcludingAssessedTax'')
              (get_us_gaap E data ''SalesRevenueNet''))
         (get_us_gaap E data ''Revenues'')"

definition gross_profit_of :: "env \<Rightarrow> pyval \<Rightarrow> real option" where
  "gross_profit_of E data = get_us_gaap E data ''GrossProfit''"

definition operating_income_of :: "env \<Rightarrow> pyval \<Rightarrow> real option" where
  "operating_income_of E data =
     por (get_us_gaap E data ''OperatingIncomeLoss'') (get_us_gaap E data ''OperatingIncome'')"

definition net_income_of :: "env \<Rightarrow> pyval \<Rightarrow> real option" where
  "net_income_of E data =
     por (get_us_gaap E data ''NetIncomeLoss'') (get_us_gaap E data ''ProfitLoss'')"

definition current_assets_of :: "env \<Rightarrow> pyval \<Rightarrow> real option" where
  "current_assets_of E data = get_us_gaap E data ''AssetsCurrent''"

definition current_liabilities_of :: "env \<Rightarrow> pyval \<Rightarrow> real option" where
  "current_liabilities_of E data = get_us_gaap E data ''LiabilitiesCurrent''"

definition equity_of :: "env \<Rightarrow> pyval \<Rightarrow> real option" where
  "equity_of E data =
     por (get_us_gaap E data ''StockholdersEquityIncludingPortionAttributableToNoncontrollingInterest'')
         (get_us_gaap E data ''StockholdersEquity'')"

definition cash_of :: "env \<Rightarrow> pyval \<Rightarrow> real option" where
  "cash_of E data =
     por (get_us_gaap E data ''CashAndCashEquivalentsAtCarryingValue'')
         (get_us_gaap E data ''CashCashEquivalentsAndShortTermInvestments'')"

text \<open>The four debt components, in the order the code sums them.\<close>

definition debt_components :: "env \<Rightarrow> pyval \<Rightarrow> real option list" where
  "debt_components E data =
     [por (get_us_gaap E data ''LongTermDebtNoncurrent'') (get_us_gaap E data ''LongTermDebt''),
      get_us_gaap E data ''LongTermDebtCurrent'',
      get_us_gaap E data ''ShortTermBorrowings'',
      get_us_gaap E data ''CommercialPaper'']"

text \<open>\<open>[v for v in [...] if v is not None]\<close>.\<close>

fun present_values :: "real option list \<Rightarrow> real list" where
  "present_values [] = []"
| "present_values (None # xs) = present_values xs"
| "present_values (Some x # xs) = x # present_values xs"

text \<open>\<open>sum([...])\<close>: always a number, 0 for the empty list; so the test
  \<open>total_debt is not None\<close> of the code is always true.\<close>

definition total_debt_of :: "env \<Rightarrow> pyval \<Rightarrow> real" where
  "total_debt_of E data = sum_list (present_values (debt_components E data))"

definition pull_sec_financials :: "env \<Rightarrow> string \<Rightarrow> pyval" where
  "pull_sec_financials E cik =
     (case http_json E (facts_url cik) [] of
        None \<Rightarrow> PDict []
      | Some data \<Rightarrow>
          if \<not> truthy data then PDict []
          else
            (let revenue = revenue_of E data;
                 gross_profit = gross_profit_of E data;
                 operating_income = operating_income_of E data;
                 net_income = net_income_of E data;
                 current_assets = current_assets_of E data;
                 current_liabilities = current_liabilities_of E data;
                 equity = equity_of E data;
                 cash = cash_of E data;
                 total_debt = total_debt_of E data;
                 gross_margin =
                   (if otruthy revenue \<and> gross_profit \<noteq> None
                    then PFloat (the gross_profit / the revenue) else PNone);
                 operating_margin =
                   (if otruthy revenue \<and> operating_income \<noteq> None
                    then PFloat (the operating_income / the revenue) else PNone);
                 current_ratio =
                   (if otruthy current_assets \<and> otruthy current_liabilities
                    then PFloat (the current_assets / the current_liabilities) else PNone);
                 debt_to_equity =
                   (if otruthy equity \<and> True then PFloat (total_debt / the equity) else PNone)
             in PDict
                  [(''revenue'', opt_val revenue),
                   (''gross_profit'', opt_val gross_profit),
                   (''operating_income'', opt_val operating_income),
                   (''net_income'', opt_val net_income),
                   (''cash'', opt_val cash),
                   (''current_assets'', opt_val current_assets),
                   (''current_liabilities'', opt_val current_liabilities),
                   (''equity'', opt_val equity),
                   (''total_debt'', if total_debt \<noteq> 0 then PFloat total_debt else PNone),
                   (''gross_margin'', gross_margin),
                   (''operating_margin'', operating_margin),
                   (''current_ratio'', current_ratio),
                   (''debt_to_equity'', debt_to_equity)]))"

text \<open>Reading a field of a result dict: a missing key and \<open>None\<close> both count as absent.\<close>

definition field :: "pyval \<Rightarrow> string \<Rightarrow> pyval" where
  "field r k = (case r of PDict d \<Rightarrow> dict_get d k PNone | _ \<Rightarrow> PNone)"


section \<open>Price series analyzer (price\_trend.py)\<close>

definition digit_char :: "nat \<Rightarrow> char" where
  "digit_char n = ''0123456789'' ! n"

fun show_nat :: "nat \<Rightarrow> string" where
  "show_nat n = (if n < 10 then [digit_char n] else show_nat (n div 10) @ [digit_char (n mod 10)])"

declare show_nat.simps [simp del]

text \<open>\<open>str(n)\<close> of an integer.\<close>

definition show_int :: "int \<Rightarrow> string" where
  "show_int i = (if i < 0 then CHR ''-'' # show_nat (nat (- i)) else show_nat (nat i))"

text \<open>\<open>dropna()\<close> on the close column.\<close>

fun dropna :: "(string \<times> real option) list \<Rightarrow> (string \<times> real) list" where
  "dropna [] = []"
| "dropna ((d, None) # rows) = dropna rows"
| "dropna ((d, Some c) # rows) = (d, c) # dropna rows"

text \<open>\<open>tail(n)\<close> and the slice \<open>xs[-n:]\<close> for positive \<open>n\<close>.\<close>

definition tail :: "nat \<Rightarrow> 'a list \<Rightarrow> 'a list" where
  "tail n xs = drop (length xs - n) xs"

definition mean :: "real list \<Rightarrow> real" where
  "mean xs = sum_list xs / real (length xs)"

definition pstdev :: "real list \<Rightarrow> real" where
  "pstdev xs = sqrt (sum_list (map (\<lambda>x. (x - mean xs)\<^sup>2) xs) / real (length xs))"

text \<open>
  \<open>[math.log(vals[i] / vals[i-1]) for i in range(1, len(vals)) if vals[i-1] and vals[i]]\<close>;
  \<open>math.log\<close> raises ValueError on an argument that is not positive.
\<close>

fun logrets :: "real list \<Rightarrow> exn + real list" where
  "logrets (a # b # rest) =
     (if a \<noteq> 0 \<and> b \<noteq> 0
      then (if b / a \<le> 0 then Inl (Raise ValueError ''math domain error'')
            else (case logrets (b # rest) of
                    Inl e \<Rightarrow> Inl e
                  | Inr ls \<Rightarrow> Inr (ln (b / a) # ls)))
      else logrets (b # rest))"
| "logrets xs = Inr []"

definition error_shape :: "pyval \<Rightarrow> pyval" where
  "error_shape msg = PDict [(''error'', msg)]"

definition price_pair :: "string \<times> real \<Rightarrow> pyval" where
  "price_pair p = PTuple [PStr (fst p), PFloat (snd p)]"

text \<open>The \<open>try\<close> body of \<open>pull_price_trend_yf\<close>.\<close>

definition price_trend_body :: "env \<Rightarrow> string \<Rightarrow> int \<Rightarrow> exn + pyval" where
  "price_trend_body E symbol days =
     (case yf_history E symbol (show_int days @ ''d'') of
        Inl e \<Rightarrow> Inl e
      | Inr NoCloseColumn \<Rightarrow> Inl (Raise KeyError [CHR 0x27, CHR ''C'', CHR ''l'', CHR ''o'', CHR ''s'', CHR ''e'', CHR 0x27])
      | Inr (Closes rows) \<Rightarrow>
          if rows = [] then Inr (error_shape (PStr ''No price data returned''))
          else
            (let closes = dropna rows in
             if closes = [] then Inl (Raise IndexError ''list index out of range'')
             else
               (let latest_close = snd (last closes);
                    oldest_close = snd (hd closes);
                    pct_change = (if oldest_close \<noteq> 0
                                  then PFloat (latest_close / oldest_close - 1) else PNone);
                    vals = map snd closes;
                    sma20 = (if 20 \<le> length vals then PFloat (mean (tail 20 vals)) else PNone);
                    sma50 = (if 50 \<le> length vals then PFloat (mean (tail 50 vals)) else PNone)
                in case logrets vals of
                     Inl e \<Rightarrow> Inl e
                   | Inr lr \<Rightarrow>
                       Inr (PDict
                         [(''latest_close'', PFloat latest_close),
                          (''oldest_close'', PFloat oldest_close),
                          (''pct_change'', pct_change),
                          (''sma20'', sma20),
                          (''sma50'', sma50),
                          (''annualized_vol'',
                             if lr \<noteq> [] then PFloat (pstdev lr * sqrt 252) else PNone),
                          (''sample'', PList (map price_pair (tail 5 closes)))]))))"

text \<open>\<open>except Exception as e: return {"error": str(e)}\<close>.\<close>

definition pull_price_trend_yf :: "env \<Rightarrow> string \<Rightarrow> int \<Rightarrow> pyval" where
  "pull_price_trend_yf E symbol days =
     (case price_trend_body E symbol days of
        Inl e \<Rightarrow> error_shape (PStr (str_exn e))
      | Inr r \<Rightarrow> r)"

section \<open>News sampler (finnhub\_news.py)\<close>

definition FINNHUB_BASE :: string where
  "FINNHUB_BASE = ''https://finnhub.io/api/v1''"

fun is_num :: "pyval \<Rightarrow> bool" where
  "is_num (PInt n) = True"
| "is_num (PFloat r) = True"
| "is_num (PBool b) = True"
| "is_num v = False"

fun num_val :: "pyval \<Rightarrow> real" where
  "num_val (PInt n) = real_of_int n"
| "num_val (PFloat r) = r"
| "num_val (PBool b) = (if b then 1 else 0)"
| "num_val v = 0"

fun is_str :: "pyval \<Rightarrow> bool" where
  "is_str (PStr s) = True"
| "is_str v = False"

fun str_val :: "pyval \<Rightarrow> string" where
  "str_val (PStr s) = s"
| "str_val v = []"

fun is_list :: "pyval \<Rightarrow> bool" where
  "is_list (PList xs) = True"
| "is_list v = False"

fun is_tuple :: "pyval \<Rightarrow> bool" where
  "is_tuple (PTuple xs) = True"
| "is_tuple v = False"

text \<open>
  \<open>sorted(xs, key=..., reverse=True)\<close> on keys already computed. Fewer than two elements
  are never compared. Numbers compare with numbers and strings with strings; any other
  pair of key types raises TypeError, and some pair of different types is compared
  whenever two are present. Keys that are all lists (or all tuples) are compared
  element by element, which may raise or not: the model does not follow that case.
\<close>

definition py_sorted_desc :: "(pyval \<times> 'a) list \<Rightarrow> exn + 'a list" where
  "py_sorted_desc kvs =
     (if length kvs \<le> 1 then Inr (map snd kvs)
      else if list_all (\<lambda>kv. is_num (fst kv)) kvs
        then Inr (map snd (sort_desc (map (\<lambda>kv. (num_val (fst kv), snd kv)) kvs)))
      else if list_all (\<lambda>kv. is_str (fst kv)) kvs
        then Inr (map snd (sort_desc (map (\<lambda>kv. (str_val (fst kv), snd kv)) kvs)))
      else if list_all (\<lambda>kv. is_list (fst kv)) kvs \<or> list_all (\<lambda>kv. is_tuple (fst kv)) kvs
        then Inl (Raise NotModelled ''comparison of sequences'')
      else Inl (Raise TypeError ''< not supported between instances''))"

text \<open>The key \<open>x.get("datetime", 0)\<close>, paired with its item.\<close>

definition news_key :: "pyval \<Rightarrow> exn + (pyval \<times> pyval)" where
  "news_key x = (case py_get x ''datetime'' (PInt 0) of Inl e \<Rightarrow> Inl e | Inr k \<Rightarrow> Inr (k, x))"

text \<open>
  One turn of the enrichment loop: \<open>fromtimestamp\<close> raises on a timestamp that is not a
  number or is out of range, and the bare \<open>except\<close> then leaves the item as it is.
\<close>

definition enrich :: "env \<Rightarrow> pyval \<Rightarrow> pyval" where
  "enrich E it =
     (case it of
        PDict d \<Rightarrow>
          (let ts = dict_get d ''datetime'' (PInt 0) in
           if is_num ts
           then (case utc_strftime E (num_val ts) of
                   Some s \<Rightarrow> PDict (dict_set d ''datetime_iso'' (PStr s))
                 | None \<Rightarrow> it)
           else it)
      | _ \<Rightarrow> it)"

text \<open>\<open>sorted(data, ...)[:20]\<close>, the loop and the result, for the elements \<open>xs\<close> of \<open>data\<close>.\<close>

definition news_digest :: "env \<Rightarrow> pyval list \<Rightarrow> exn + pyval" where
  "news_digest E xs =
     (case map_e news_key xs of
        Inl e \<Rightarrow> Inl e
      | Inr keyed \<Rightarrow>
          (case py_sorted_desc keyed of
             Inl e \<Rightarrow> Inl e
           | Inr sorted_items \<Rightarrow>
               Inr (PDict [(''count'', PInt (int (length xs))),
                           (''sample'', PList (map (enrich E) (take 20 sorted_items)))])))"

text \<open>The largest day count of a \<open>timedelta\<close> and the largest ordinal of a \<open>date\<close>.\<close>

definition max_delta_days :: int where
  "max_delta_days = 999999999"

definition max_ordinal :: int where
  "max_ordinal = 3652059"

definition news_params :: "env \<Rightarrow> string \<Rightarrow> int \<Rightarrow> (string \<times> string) list" where
  "news_params E symbol days =
     [(''symbol'', symbol), (''from'', date_str E (today E - days)),
      (''to'', date_str E (today E)), (''token'', finnhub_api_key E)]"

definition pull_finnhub_news :: "env \<Rightarrow> string \<Rightarrow> int \<Rightarrow> exn + pyval" where
  "pull_finnhub_news E symbol days =
     (if finnhub_api_key E = [] then Inr (error_shape (PStr ''Missing FINNHUB_API_KEY''))
      else if \<bar>days\<bar> > max_delta_days \<or> today E - days < 1 \<or> today E - days > max_ordinal
        then Inl (Raise OverflowError ''date value out of range'')
      else
        (case http_json E (FINNHUB_BASE @ ''/company-news'') (news_params E symbol days) of
           None \<Rightarrow> Inr (error_shape (PStr ''Failed to get news''))
         | Some data \<Rightarrow>
             (case data of
                PDict d \<Rightarrow>
                  if d = [] \<or> truthy (dict_get d ''error'' PNone)
                  then Inr (error_shape (dict_get d ''error'' PNone))
                  else Inl (Raise AttributeError ''str has no attribute get'')
              | PList xs \<Rightarrow>
                  if xs = [] then Inr (error_shape (PStr ''Failed to get news''))
                  else news_digest E xs
              | PTuple xs \<Rightarrow>
                  if xs = [] then Inr (error_shape (PStr ''Failed to get news''))
                  else news_digest E xs
              | PStr s \<Rightarrow>
                  if s = [] then Inr (error_shape (PStr ''Failed to get news''))
                  else Inl (Raise AttributeError ''str has no attribute get'')
              | _ \<Rightarrow>
                  if \<not> truthy data then Inr (error_shape (PStr ''Failed to get news''))
                  else Inl (Raise TypeError ''object is not iterable''))))"

section \<open>Ticker resolver (resolver.py)\<close>

definition SEC_TICKER_CIK :: string where
  "SEC_TICKER_CIK = ''https://www.sec.gov/files/company_tickers.json''"

text \<open>\<open>str.upper()\<close> on ASCII letters; other characters are left as they are.\<close>

definition upper_char :: "char \<Rightarrow> char" where
  "upper_char c =
     (case map_of (zip ''abcdefghijklmnopqrstuvwxyz'' ''ABCDEFGHIJKLMNOPQRSTUVWXYZ'') c of
        Some u \<Rightarrow> u
      | None \<Rightarrow> c)"

definition upper :: "string \<Rightarrow> string" where
  "upper s = map upper_char s"

text \<open>\<open>str(v)\<close>.\<close>

definition py_str :: "env \<Rightarrow> pyval \<Rightarrow> string" where
  "py_str E v =
     (case v of
        PStr s \<Rightarrow> s
      | PInt n \<Rightarrow> show_int n
      | PNone \<Rightarrow> ''None''
      | PBool b \<Rightarrow> (if b then ''True'' else ''False'')
      | _ \<Rightarrow> repr_str E v)"

text \<open>\<open>s.zfill(w)\<close>: zeros go after a leading sign.\<close>

definition zfill :: "nat \<Rightarrow> string \<Rightarrow> string" where
  "zfill w s =
     (case s of
        c # rest \<Rightarrow>
          if c = CHR ''+'' \<or> c = CHR ''-'' then c # replicate (w - length s) CHR ''0'' @ rest
          else replicate (w - length s) CHR ''0'' @ s
      | [] \<Rightarrow> replicate w CHR ''0'')"

text \<open>The loop over \<open>data.values()\<close>: the first matching entry returns; an entry that
  cannot be read raises, and the exception ends the search.\<close>

fun scan_registry :: "env \<Rightarrow> string \<Rightarrow> pyval list \<Rightarrow> exn + pyval option" where
  "scan_registry E ticker [] = Inr None"
| "scan_registry E ticker (entry # entries) =
     (case py_index entry ''ticker'' of
        Inl e \<Rightarrow> Inl e
      | Inr (PStr t) \<Rightarrow>
          if upper t = upper ticker
          then (case py_index entry ''cik_str'' of
                  Inl e \<Rightarrow> Inl e
                | Inr c \<Rightarrow>
                    (case py_get entry ''title'' (PStr ''Unknown'') of
                       Inl e \<Rightarrow> Inl e
                     | Inr title \<Rightarrow>
                         Inr (Some (PDict [(''ticker'', PStr (upper ticker)),
                                           (''cik'', PStr (zfill 10 (py_str E c))),
                                           (''title'', title)]))))
          else scan_registry E ticker entries
      | Inr _ \<Rightarrow> Inl (Raise AttributeError ''object has no attribute upper''))"

definition resolve_body :: "env \<Rightarrow> string \<Rightarrow> exn + pyval option" where
  "resolve_body E ticker =
     (case http_json E SEC_TICKER_CIK [] of
        None \<Rightarrow> Inl (Raise FetchError ''request failed'')
      | Some (PDict d) \<Rightarrow> scan_registry E ticker (map snd d)
      | Some _ \<Rightarrow> Inl (Raise AttributeError ''object has no attribute values''))"

text \<open>\<open>resolve_ticker_to_cik\<close>: \<open>None\<close> after an exception, and \<open>None\<close> when the loop ends
  without a match (the function falls off its end).\<close>

definition resolve_ticker_to_cik :: "env \<Rightarrow> string \<Rightarrow> pyval option" where
  "resolve_ticker_to_cik E ticker =
     (case resolve_body E ticker of Inl e \<Rightarrow> None | Inr r \<Rightarrow> r)"

section \<open>Aggregation hub and persistence (collect\_raw\_data.py)\<close>

definition collect_raw_data :: "env \<Rightarrow> string \<Rightarrow> exn + pyval" where
  "collect_raw_data E ticker =
     (case resolve_ticker_to_cik E ticker of
        None \<Rightarrow> Inl (Raise TypeError ''NoneType object is not subscriptable'')
      | Some resolved \<Rightarrow>
          (case py_index resolved ''cik'' of
             Inl e \<Rightarrow> Inl e
           | Inr cik \<Rightarrow>
               (let sec = pull_sec_financials E (py_str E cik);
                    prices = pull_price_trend_yf E ticker 60
                in case pull_finnhub_news E ticker 30 of
                     Inl e \<Rightarrow> Inl e
                   | Inr news \<Rightarrow>
                       Inr (PDict [(''meta'', resolved), (''sec'', sec),
                                   (''prices'', prices), (''news'', news)]))))"

text \<open>
  What \<open>json.dump\<close> writes and \<open>json.load\<close> reads: a JSON document. The text of the file
  is not modelled, only the document it denotes; the encoder writes a tuple and a list as
  the same array, and the decoder reads every array as a list.
\<close>

datatype jsondoc =
    JNull
  | JBool bool
  | JInt int
  | JNum real
  | JString string
  | JArray "jsondoc list"
  | JObject "(string \<times> jsondoc) list"

primrec json_encode :: "pyval \<Rightarrow> jsondoc" where
  "json_encode PNone = JNull"
| "json_encode (PBool b) = JBool b"
| "json_encode (PInt n) = JInt n"
| "json_encode (PFloat r) = JNum r"
| "json_encode (PStr s) = JString s"
| "json_encode (PList xs) = JArray (map json_encode xs)"
| "json_encode (PTuple xs) = JArray (map json_encode xs)"
| "json_encode (PDict d) = JObject (map (map_prod id json_encode) d)"

primrec json_decode :: "jsondoc \<Rightarrow> pyval" where
  "json_decode JNull = PNone"
| "json_decode (JBool b) = PBool b"
| "json_decode (JInt n) = PInt n"
| "json_decode (JNum r) = PFloat r"
| "json_decode (JString s) = PStr s"
| "json_decode (JArray xs) = PList (map json_decode xs)"
| "json_decode (JObject d) = PDict (map (map_prod id json_decode) d)"

text \<open>The value with every tuple turned into a list.\<close>

primrec detuple :: "pyval \<Rightarrow> pyval" where
  "detuple PNone = PNone"
| "detuple (PBool b) = PBool b"
| "detuple (PInt n) = PInt n"
| "detuple (PFloat r) = PFloat r"
| "detuple (PStr s) = PStr s"
| "detuple (PList xs) = PList (map detuple xs)"
| "detuple (PTuple xs) = PList (map detuple xs)"
| "detuple (PDict d) = PDict (map (map_prod id detuple) d)"

text \<open>The files on disk, by path.\<close>

type_synonym files = "string \<Rightarrow> jsondoc option"

definition raw_path :: "env \<Rightarrow> string \<Rightarrow> string \<Rightarrow> string option \<Rightarrow> bool \<Rightarrow> string" where
  "raw_path E ticker out_dir filename with_timestamp =
     (let stamp = (if with_timestamp then now_stamp E else []);
          dflt = ticker @ ''_raw'' @ (if stamp \<noteq> [] then ''_'' @ stamp else []) @ ''.json'';
          base = (case filename of None \<Rightarrow> dflt | Some f \<Rightarrow> if f \<noteq> [] then f else dflt)
      in path_join E out_dir base)"

text \<open>\<open>persist_raw_json\<close>: the path written and the files afterwards.\<close>

definition persist_raw_json ::
  "env \<Rightarrow> files \<Rightarrow> string \<Rightarrow> pyval \<Rightarrow> string \<Rightarrow> string option \<Rightarrow> bool \<Rightarrow> string \<times> files" where
  "persist_raw_json E fs ticker data out_dir filename with_timestamp =
     (let path = raw_path E ticker out_dir filename with_timestamp
      in (path, fs(path \<mapsto> json_encode data)))"

definition load_raw_json :: "files \<Rightarrow> string \<Rightarrow> exn + pyval" where
  "load_raw_json fs path =
     (case fs path of
        None \<Rightarrow> Inl (Raise FileNotFoundError path)
      | Some doc \<Rightarrow> Inr (json_decode doc))"

section \<open>A concrete outside world for the examples\<close>

text \<open>The date-only format \<open>YYYY-MM-DD\<close> of \<open>datetime.fromisoformat\<close>.\<close>

definition digit_of :: "char \<Rightarrow> nat option" where
  "digit_of c = map_of (zip ''0123456789'' [0, 1, 2, 3, 4, 5, 6, 7, 8, 9]) c"

fun digits_val :: "nat \<Rightarrow> string \<Rightarrow> nat option" where
  "digits_val acc [] = Some acc"
| "digits_val acc (c # cs) =
     (case digit_of c of None \<Rightarrow> None | Some d \<Rightarrow> digits_val (10 * acc + d) cs)"

definition days_in_month :: "nat \<Rightarrow> nat \<Rightarrow> nat" where
  "days_in_month y m =
     (if m = 2 then (if y mod 4 = 0 \<and> (y mod 100 \<noteq> 0 \<or> y mod 400 = 0) then 29 else 28)
      else if m = 4 \<or> m = 6 \<or> m = 9 \<or> m = 11 then 30 else 31)"

definition iso_date :: "string \<Rightarrow> datetime option" where
  "iso_date s =
     (if length s = 10 \<and> s ! 4 = CHR ''-'' \<and> s ! 7 = CHR ''-''
      then (case (digits_val 0 (take 4 s), digits_val 0 (take 2 (drop 5 s)),
                  digits_val 0 (drop 8 s)) of
              (Some y, Some m, Some d) \<Rightarrow>
                if 1 \<le> y \<and> 1 \<le> m \<and> m \<le> 12 \<and> 1 \<le> d \<and> d \<le> days_in_month y m
                then Some (y, m, d, 0, 0, 0, 0) else None
            | _ \<Rightarrow> None)
      else None)"

text \<open>Plain decimal integers, with an optional minus sign.\<close>

definition dec_int :: "string \<Rightarrow> int option" where
  "dec_int s =
     (case s of
        [] \<Rightarrow> None
      | c # cs \<Rightarrow>
          if c = CHR ''-''
          then (if cs = [] then None else map_option (\<lambda>n. - int n) (digits_val 0 cs))
          else map_option int (digits_val 0 s))"

text \<open>Year, month and day of a day count from 1970-01-01 (proleptic Gregorian calendar).\<close>

definition civil_from_days :: "int \<Rightarrow> int \<times> int \<times> int" where
  "civil_from_days z =
     (let z' = z + 719468;
          era = z' div 146097;
          doe = z' - era * 146097;
          yoe = (doe - doe div 1460 + doe div 36524 - doe div 146096) div 365;
          doy = doe - (365 * yoe + yoe div 4 - yoe div 100);
          mp = (5 * doy + 2) div 153;
          d = doy - (153 * mp + 2) div 5 + 1;
          m = (if mp < 10 then mp + 3 else mp - 9);
          y = yoe + era * 400 + (if m \<le> 2 then 1 else 0)
      in (y, m, d))"

definition pad :: "nat \<Rightarrow> int \<Rightarrow> string" where
  "pad w n = replicate (w - length (show_int n)) CHR ''0'' @ show_int n"

definition ymd_str :: "int \<times> int \<times> int \<Rightarrow> string" where
  "ymd_str t = (case t of (y, m, d) \<Rightarrow> pad 4 y @ ''-'' @ pad 2 m @ ''-'' @ pad 2 d)"

text \<open>\<open>str(date)\<close> of a proleptic ordinal (1970-01-01 is day 719163).\<close>

definition ordinal_str :: "int \<Rightarrow> string" where
  "ordinal_str n = ymd_str (civil_from_days (n - 719163))"

text \<open>\<open>fromtimestamp(ts, tz=utc).strftime("%Y-%m-%d %H:%M:%S")\<close>, whole seconds; years
  outside 1..9999 raise.\<close>

definition utc_format :: "real \<Rightarrow> string option" where
  "utc_format ts =
     (let secs = \<lfloor>ts\<rfloor>;
          t = civil_from_days (secs div 86400);
          r = secs mod 86400
      in if fst t < 1 \<or> 9999 < fst t then None
         else Some (ymd_str t @ '' '' @ pad 2 (r div 3600) @ '':'' @ pad 2 (r mod 3600 div 60)
                    @ '':'' @ pad 2 (r mod 60)))"

text \<open>
  A world with no network, no price data and no API key. Its string conversions read plain
  decimal integers only and its \<open>repr\<close> is empty: the examples below never reach them with
  anything else.
\<close>

definition offline :: env where
  "offline =
     \<lparr> http_json = (\<lambda>url params. None),
       yf_history = (\<lambda>symbol period. Inl (Raise FetchError ''no connection'')),
       finnhub_api_key = [],
       today = 739250,
       date_str = ordinal_str,
       now_stamp = ''20250101-093000'',
       path_join = (\<lambda>dir base. dir @ ''/'' @ base),
       fromisoformat = iso_date,
       int_of_str = dec_int,
       float_of_str = (\<lambda>s. map_option real_of_int (dec_int s)),
       utc_strftime = utc_format,
       repr_str = (\<lambda>v. []) \<rparr>"

text \<open>A fact entry of the filing document.\<close>

definition fact_entry :: "string \<Rightarrow> int \<Rightarrow> string \<Rightarrow> string \<Rightarrow> pyval \<Rightarrow> pyval" where
  "fact_entry end_date fy fp form v =
     PDict [(''end'', PStr end_date), (''val'', v), (''fy'', PInt fy), (''fp'', PStr fp),
            (''form'', PStr form)]"

definition usd_tag :: "pyval list \<Rightarrow> pyval" where
  "usd_tag entries = PDict [(''units'', PDict [(''USD'', PList entries)])]"

definition facts_doc :: "(string \<times> pyval) list \<Rightarrow> pyval" where
  "facts_doc tags = PDict [(''facts'', PDict [(''us-gaap'', PDict tags)])]"

definition fy2024 :: "pyval \<Rightarrow> pyval" where
  "fy2024 v = usd_tag [fact_entry ''2024-12-31'' 2024 ''FY'' ''10-K'' v]"

text \<open>A filer that reports equity and current assets and liabilities, and no debt tag.\<close>

definition facts_no_debt :: pyval where
  "facts_no_debt =
     facts_doc [(''StockholdersEquity'', fy2024 (PInt 100)),
                (''AssetsCurrent'', fy2024 (PInt 0)),
                (''LiabilitiesCurrent'', fy2024 (PInt 50))]"

text \<open>A filer that reports a long-term debt of zero.\<close>

definition facts_zero_debt :: pyval where
  "facts_zero_debt =
     facts_doc [(''StockholdersEquity'', fy2024 (PInt 100)),
                (''LongTermDebt'', fy2024 (PInt 0))]"

text \<open>A filer with long-term debt and short-term borrowings.\<close>

definition facts_two_debts :: pyval where
  "facts_two_debts =
     facts_doc [(''StockholdersEquity'', fy2024 (PInt 100)),
                (''LongTermDebt'', fy2024 (PInt 40)),
                (''ShortTermBorrowings'', fy2024 (PInt 2))]"

definition demo_registry :: pyval where
  "demo_registry =
     PDict [(''0'', PDict [(''cik_str'', PInt 320193), (''ticker'', PStr ''AAPL''),
                           (''title'', PStr ''Apple Inc.'')])]"

definition demo_items :: "pyval list" where
  "demo_items =
     [PDict [(''headline'', PStr ''Results''), (''datetime'', PInt 1735000000)],
      PDict [(''headline'', PStr ''In milliseconds''), (''datetime'', PInt 1734000000000)]]"

text \<open>Two news items, the second with a timestamp that is not a number.\<close>

definition undated_items :: "pyval list" where
  "undated_items =
     [PDict [(''headline'', PStr ''Results''), (''datetime'', PInt 1735000000)],
      PDict [(''headline'', PStr ''Undated''), (''datetime'', PStr ''n/a'')]]"

text \<open>A world that answers every request: one registry entry, one filing document, one
  day of prices, two news items.\<close>

definition demo :: "pyval \<Rightarrow> env" where
  "demo facts =
     offline
       \<lparr> http_json := (\<lambda>url params.
            if url = SEC_TICKER_CIK then Some demo_registry
            else if url = facts_url ''0000320193'' then Some facts
            else if url = FINNHUB_BASE @ ''/company-news'' then Some (PList demo_items)
            else None),
         yf_history := (\<lambda>symbol period. Inr (Closes [(''2024-12-30'', Some 10)])),
         finnhub_api_key := ''token'' \<rparr>"

text \<open>The bundle \<open>collect_raw_data\<close> returns for AAPL in that world.\<close>

definition demo_bundle :: pyval where
  "demo_bundle =
     PDict
       [(''meta'', PDict [(''ticker'', PStr ''AAPL''), (''cik'', PStr ''0000320193''),
                           (''title'', PStr ''Apple Inc.'')]),
        (''sec'', PDict []),
        (''prices'',
           PDict [(''latest_close'', PFloat 10), (''oldest_close'', PFloat 10),
                  (''pct_change'', PFloat 0), (''sma20'', PNone), (''sma50'', PNone),
                  (''annualized_vol'', PNone),
                  (''sample'', PList [PTuple [PStr ''2024-12-30'', PFloat 10]])]),
        (''news'',
           PDict [(''count'', PInt 2),
                  (''sample'',
                     PList [PDict [(''headline'', PStr ''In milliseconds''),
                                   (''datetime'', PInt 1734000000000)],
                            PDict [(''headline'', PStr ''Results''),
                                   (''datetime'', PInt 1735000000),
                                   (''datetime_iso'', PStr ''2024-12-24 00:26:40'')]])])]"

text \<open>The names of the fields of a price result.\<close>

definition numeric_fields :: "string list" where
  "numeric_fields =
     [''latest_close'', ''oldest_close'', ''pct_change'', ''sma20'', ''sma50'',
      ''annualized_vol'', ''sample'']"

text \<open>A world whose price source answers with the given rows.\<close>

definition price_world :: "(string \<times> real option) list \<Rightarrow> env" where
  "price_world rows = offline \<lparr> yf_history := (\<lambda>symbol period. Inr (Closes rows)) \<rparr>"

text \<open>Twenty trading days of rising closes.\<close>

definition rising_rows :: "(string \<times> real option) list" where
  "rising_rows =
     [
      (''2024-12-02'', Some 100), (''2024-12-03'', Some 101), (''2024-12-04'', Some 102),
      (''2024-12-05'', Some 103), (''2024-12-06'', Some 104), (''2024-12-09'', Some 105),
      (''2024-12-10'', Some 106), (''2024-12-11'', Some 107), (''2024-12-12'', Some 108),
      (''2024-12-13'', Some 109), (''2024-12-16'', Some 110), (''2024-12-17'', Some 111),
      (''2024-12-18'', Some 112), (''2024-12-19'', Some 113), (''2024-12-20'', Some 114),
      (''2024-12-23'', Some 115), (''2024-12-24'', Some 116), (''2024-12-25'', Some 117),
      (''2024-12-26'', Some 118), (''2024-12-27'', Some 119)]"

text \<open>Twenty trading days that start with a negative close, as a futures contract had on
  2020-04-20.\<close>

definition negative_start_rows :: "(string \<times> real option) list" where
  "negative_start_rows =
     [
      (''2020-04-20'', Some (- 37)), (''2020-04-21'', Some 10), (''2020-04-22'', Some 13),
      (''2020-04-23'', Some 16), (''2020-04-24'', Some 16), (''2020-04-27'', Some 12),
      (''2020-04-28'', Some 12), (''2020-04-29'', Some 15), (''2020-04-30'', Some 18),
      (''2020-05-01'', Some 19), (''2020-05-04'', Some 20), (''2020-05-05'', Some 24),
      (''2020-05-06'', Some 23), (''2020-05-07'', Some 24), (''2020-05-08'', Some 24),
      (''2020-05-11'', Some 25), (''2020-05-12'', Some 27), (''2020-05-13'', Some 29),
      (''2020-05-14'', Some 31), (''2020-05-15'', Some 33)]"

text \<open>A world whose news source answers with \<open>data\<close> (\<open>None\<close>: the request fails).\<close>

definition news_world :: "pyval option \<Rightarrow> env" where
  "news_world data =
     offline
       \<lparr> http_json := (\<lambda>url params. if url = FINNHUB_BASE @ ''/company-news'' then data else None),
         finnhub_api_key := ''token'' \<rparr>"

definition news_item :: "int \<Rightarrow> pyval" where
  "news_item t = PDict [(''headline'', PStr (''Story '' @ show_int t)), (''datetime'', PInt t)]"

text \<open>Twenty-five news items with distinct timestamps, in no particular order.\<close>

definition news25 :: "pyval list" where
  "news25 =
     map news_item
       [1735046800, 1735068400, 1735018000, 1735079200, 1735082800,
        1735057600, 1735025200, 1735086400, 1735032400, 1735021600,
        1735054000, 1735000000, 1735064800, 1735028800, 1735050400,
        1735075600, 1735039600, 1735010800, 1735061200, 1735007200,
        1735003600, 1735072000, 1735043200, 1735014400, 1735036000]"

section \<open>Notions the properties are stated with\<close>

text \<open>The entries the selection sorts: the annual ones, or all of them when none is annual.\<close>

definition annual_entries :: "pyval list \<Rightarrow> pyval list" where
  "annual_entries vs =
     (if filter (\<lambda>v. is_annual v = Inr True) vs = [] then vs
      else filter (\<lambda>v. is_annual v = Inr True) vs)"

text \<open>The sort key of an entry whose \<open>fy\<close> converts to an integer.\<close>

definition entry_key :: "env \<Rightarrow> pyval \<Rightarrow> datetime \<times> int" where
  "entry_key E v =
     (parse_date E v,
      case py_get v ''fy'' (PInt 0) of
        Inl e \<Rightarrow> 0
      | Inr fy \<Rightarrow> (case py_int E fy of Inl e \<Rightarrow> 0 | Inr n \<Rightarrow> n))"

text \<open>An entry on which neither the annual test nor the key computation raises.\<close>

definition entry_ok :: "env \<Rightarrow> pyval \<Rightarrow> bool" where
  "entry_ok E v = (\<not> isl (is_annual v) \<and> \<not> isl (sort_key_of E v))"

text \<open>The numeric timestamp of a news item, 0 when the item has none.\<close>

definition news_ts :: "pyval \<Rightarrow> real" where
  "news_ts x = (case x of PDict d \<Rightarrow> num_val (dict_get d ''datetime'' (PInt 0)) | _ \<Rightarrow> 0)"

text \<open>The sort key of a news item: its \<open>datetime\<close>, 0 when it has none.\<close>

definition ts_key :: "pyval \<Rightarrow> pyval" where
  "ts_key x = (case x of PDict d \<Rightarrow> dict_get d ''datetime'' (PInt 0) | _ \<Rightarrow> PNone)"

text \<open>A news item whose timestamp is a number or missing.\<close>

definition numeric_ts :: "pyval \<Rightarrow> bool" where
  "numeric_ts x = (case x of PDict d \<Rightarrow> is_num (dict_get d ''datetime'' (PInt 0)) | _ \<Rightarrow> False)"

text \<open>The ISO text of an item's timestamp, when it has a number that converts.\<close>

definition iso_of :: "env \<Rightarrow> pyval \<Rightarrow> string option" where
  "iso_of E x =
     (case x of
        PDict d \<Rightarrow>
          if is_num (dict_get d ''datetime'' (PInt 0))
          then utc_strftime E (num_val (dict_get d ''datetime'' (PInt 0)))
          else None
      | _ \<Rightarrow> None)"

text \<open>The news source answered the request of \<open>pull_finnhub_news\<close> with the value \<open>data\<close>.\<close>

definition news_fetched :: "env \<Rightarrow> string \<Rightarrow> int \<Rightarrow> pyval \<Rightarrow> bool" where
  "news_fetched E symbol days data =
     (finnhub_api_key E \<noteq> [] \<and> \<bar>days\<bar> \<le> max_delta_days \<and> 1 \<le> today E - days
      \<and> today E - days \<le> max_ordinal
      \<and> http_json E (FINNHUB_BASE @ ''/company-news'') (news_params E symbol days) = Some data)"

text \<open>The price source answered the request of \<open>pull_price_trend_yf\<close> with the rows \<open>rows\<close>.\<close>

definition prices_fetched :: "env \<Rightarrow> string \<Rightarrow> int \<Rightarrow> (string \<times> real option) list \<Rightarrow> bool" where
  "prices_fetched E symbol days rows =
     (yf_history E symbol (show_int days @ ''d'') = Inr (Closes rows))"

section \<open>Selection of the latest annual value\<close>

lemma filter_e_total:
  "\<forall>x\<in>set xs. \<not> isl (p x) \<Longrightarrow> filter_e p xs = Inr (filter (\<lambda>x. p x = Inr True) xs)"
proof (induction xs)
  case Nil
  then show ?case by simp
next
  case (Cons x xs)
  then obtain b where "p x = Inr b" by (cases "p x") auto
  with Cons show ?case by simp
qed

lemma map_e_total:
  "\<forall>x\<in>set xs. f x = Inr (g x) \<Longrightarrow> map_e f xs = Inr (map g xs)"
  by (induction xs) simp_all

lemma sort_key_of_ok:
  "\<not> isl (sort_key_of E v) \<Longrightarrow> sort_key_of E v = Inr (entry_key E v, v)"
  by (auto simp: sort_key_of_def entry_key_def split: sum.splits)

lemma sorted_last_Max:
  "sorted xs \<Longrightarrow> xs \<noteq> [] \<Longrightarrow> last xs = Max (set xs)"
proof (induction xs)
  case Nil
  then show ?case by simp
next
  case (Cons a xs)
  show ?case
  proof (cases "xs = []")
    case True
    then show ?thesis by simp
  next
    case False
    with Cons have "last xs = Max (set xs)" by simp
    moreover have "a \<le> Max (set xs)"
      using Cons.prems False by (metis List.finite_set Max_in set_empty sorted_simps(2))
    ultimately show ?thesis using False by (simp add: max_absorb2)
  qed
qed

lemma last_filter_keep:
  "xs \<noteq> [] \<Longrightarrow> P (last xs) \<Longrightarrow> last (filter P xs) = last xs"
  by (induction xs rule: rev_induct) auto

lemma sort_key_eq_Nil [simp]: "sort_key f xs = [] \<longleftrightarrow> xs = []"
  by (metis length_0_conv length_sort)

lemma hd_sort_desc:
  assumes "kvs \<noteq> []"
  shows "hd (sort_desc kvs) = hd (filter (\<lambda>kv. fst kv = Max (fst ` set kvs)) kvs)"
proof -
  let ?ys = "sort_key fst (rev kvs)"
  let ?m = "Max (fst ` set kvs)"
  have ne: "?ys \<noteq> []" using assms by (metis length_0_conv length_sort rev_is_Nil_conv)
  have srt: "sorted (map fst ?ys)" by (rule sorted_sort_key)
  have "fst (last ?ys) = last (map fst ?ys)" using ne by (simp add: last_map)
  also have "\<dots> = Max (set (map fst ?ys))"
    using srt ne by (simp add: sorted_last_Max)
  finally have key: "fst (last ?ys) = ?m" by simp
  have "last ?ys = last (filter (\<lambda>kv. fst kv = ?m) ?ys)"
    using key ne by (simp add: last_filter_keep)
  also have "filter (\<lambda>kv. fst kv = ?m) ?ys = filter (\<lambda>kv. fst kv = ?m) (rev kvs)"
    by (rule sort_key_stable)
  also have "\<dots> = rev (filter (\<lambda>kv. fst kv = ?m) kvs)" by (simp add: rev_filter)
  finally have "last ?ys = hd (filter (\<lambda>kv. fst kv = ?m) kvs)" by (simp add: last_rev)
  then show ?thesis by (simp add: sort_desc_def hd_rev)
qed


lemma select_latest_ok:
  assumes ok: "\<forall>v\<in>set vs. entry_ok E v" and ne: "vs \<noteq> []"
  shows "latest_annual_value E (PList vs) =
     Inr (hd (filter (\<lambda>v. entry_key E v = Max (entry_key E ` set (annual_entries vs)))
                (annual_entries vs)))"
proof -
  let ?A = "annual_entries vs"
  let ?kvs = "map (\<lambda>v. (entry_key E v, v)) ?A"
  have f: "filter_e is_annual vs = Inr (filter (\<lambda>v. is_annual v = Inr True) vs)"
    using ok by (intro filter_e_total) (simp add: entry_ok_def)
  have sub: "set ?A \<subseteq> set vs" by (auto simp: annual_entries_def)
  have Ane: "?A \<noteq> []" using ne by (simp add: annual_entries_def)
  have m: "map_e (sort_key_of E) ?A = Inr ?kvs"
    using ok sub by (intro map_e_total) (auto simp: entry_ok_def sort_key_of_ok)
  have kne: "?kvs \<noteq> []" using Ane by simp
  have img: "fst ` set ?kvs = entry_key E ` set ?A" by (auto simp: image_iff)
  have "hd (sort_desc ?kvs) = hd (filter (\<lambda>kv. fst kv = Max (fst ` set ?kvs)) ?kvs)"
    using kne by (rule hd_sort_desc)
  also have "filter (\<lambda>kv. fst kv = Max (fst ` set ?kvs)) ?kvs =
      map (\<lambda>v. (entry_key E v, v)) (filter (\<lambda>v. entry_key E v = Max (entry_key E ` set ?A)) ?A)"
    unfolding img by (simp add: filter_map comp_def)
  finally have h: "hd (sort_desc ?kvs) =
      hd (map (\<lambda>v. (entry_key E v, v)) (filter (\<lambda>v. entry_key E v = Max (entry_key E ` set ?A)) ?A))" .
  have fne: "filter (\<lambda>v. entry_key E v = Max (entry_key E ` set ?A)) ?A \<noteq> []"
  proof -
    have "Max (entry_key E ` set ?A) \<in> entry_key E ` set ?A"
      using Ane by (intro Max_in) auto
    then show ?thesis by (auto simp: filter_empty_conv)
  qed
  have sne: "sort_desc ?kvs \<noteq> []" using kne by (simp add: sort_desc_def)
  have "latest_annual_value E (PList vs) = Inr (snd (hd (sort_desc ?kvs)))"
    using f m sne
    by (cases "sort_desc ?kvs") (auto simp: latest_annual_value_def select_latest_def annual_entries_def)
  then show ?thesis using h fne by (simp add: hd_map)
qed


lemma hd_filter_props:
  "filter P xs \<noteq> [] \<Longrightarrow> hd (filter P xs) \<in> set xs \<and> P (hd (filter P xs))"
  by (induction xs) (auto split: if_splits)

lemma set_annual_entries_cong:
  "set vs' = set vs \<Longrightarrow> set (annual_entries vs') = set (annual_entries vs)"
proof -
  assume eq: "set vs' = set vs"
  have "set (filter (\<lambda>v. is_annual v = Inr True) vs') = set (filter (\<lambda>v. is_annual v = Inr True) vs)"
    using eq by auto
  moreover have "filter (\<lambda>v. is_annual v = Inr True) vs' = [] \<longleftrightarrow> filter (\<lambda>v. is_annual v = Inr True) vs = []"
    using eq by (auto simp: filter_empty_conv)
  ultimately show ?thesis using eq by (simp add: annual_entries_def)
qed

text \<open>
  Claim C4, as the code has it. For a non-empty list of entries on which neither the annual
  test nor the key computation raises, \<open>latest_annual_value\<close> restricts to the annual
  entries (all entries when none is annual) and returns an entry whose key (parsed end
  date, \<open>datetime.min\<close> when unparseable; then the fiscal year) is maximal; among several
  entries with the maximal key it is the first in input order. When the maximal entry is
  unique, it is returned whatever the order of the input.
\<close>

theorem latest_annual_value_first_maximal:
  assumes ne: "vs \<noteq> []" and ok: "\<forall>v\<in>set vs. entry_ok E v"
  shows "\<exists>e. latest_annual_value E (PList vs) = Inr e
      \<and> e \<in> set (annual_entries vs)
      \<and> (\<forall>v\<in>set (annual_entries vs). entry_key E v \<le> entry_key E e)
      \<and> e = hd (filter (\<lambda>v. entry_key E v = entry_key E e) (annual_entries vs))
      \<and> ((\<forall>v\<in>set (annual_entries vs). v \<noteq> e \<longrightarrow> entry_key E v < entry_key E e) \<longrightarrow>
           (\<forall>vs'. set vs' = set vs \<longrightarrow> latest_annual_value E (PList vs') = Inr e))"
proof -
  let ?A = "annual_entries vs"
  let ?M = "Max (entry_key E ` set ?A)"
  let ?F = "filter (\<lambda>v. entry_key E v = ?M) ?A"
  let ?e = "hd ?F"
  have Ane: "?A \<noteq> []" using ne by (simp add: annual_entries_def)
  have Min: "?M \<in> entry_key E ` set ?A" using Ane by (intro Max_in) auto
  then have Fne: "?F \<noteq> []" by (auto simp: filter_empty_conv)
  then have eA: "?e \<in> set ?A" and ke: "entry_key E ?e = ?M"
    using hd_filter_props [of "\<lambda>v. entry_key E v = ?M" ?A] by blast+
  have res: "latest_annual_value E (PList vs) = Inr ?e"
    using ok ne by (rule select_latest_ok)
  have mx: "\<forall>v\<in>set ?A. entry_key E v \<le> entry_key E ?e"
    unfolding ke by (auto intro: Max_ge)
  have first: "?e = hd (filter (\<lambda>v. entry_key E v = entry_key E ?e) ?A)"
    unfolding ke ..
  have indep: "latest_annual_value E (PList vs') = Inr ?e"
    if strict: "\<forall>v\<in>set ?A. v \<noteq> ?e \<longrightarrow> entry_key E v < entry_key E ?e"
      and eq: "set vs' = set vs" for vs'
  proof -
    let ?A' = "annual_entries vs'"
    let ?F' = "filter (\<lambda>v. entry_key E v = Max (entry_key E ` set ?A')) ?A'"
    have ne': "vs' \<noteq> []" using eq ne by auto
    have ok': "\<forall>v\<in>set vs'. entry_ok E v" using eq ok by simp
    have A': "set ?A' = set ?A" using eq by (rule set_annual_entries_cong)
    have res': "latest_annual_value E (PList vs') = Inr (hd ?F')"
      using ok' ne' by (rule select_latest_ok)
    have "Max (entry_key E ` set ?A') \<in> entry_key E ` set ?A'"
      using ne' by (intro Max_in) (auto simp: annual_entries_def)
    then have "?F' \<noteq> []" by (auto simp: filter_empty_conv)
    then have "hd ?F' \<in> set ?A'" and "entry_key E (hd ?F') = Max (entry_key E ` set ?A')"
      using hd_filter_props [of "\<lambda>v. entry_key E v = Max (entry_key E ` set ?A')" ?A'] by blast+
    then have "hd ?F' \<in> set ?A" and "entry_key E (hd ?F') = ?M" using A' by auto
    with strict ke have "hd ?F' = ?e" by (metis less_irrefl)
    with res' show ?thesis by simp
  qed
  show ?thesis
    using res eA mx first indep by blast
qed

text \<open>The two annual entries ending 2023-12-31 and 2024-12-31, in both orders.\<close>

theorem latest_annual_value_first_maximal_witness:
  "[fact_entry ''2023-12-31'' 2023 ''FY'' ''10-K'' (PInt 90),
    fact_entry ''2024-12-31'' 2024 ''FY'' ''10-K'' (PInt 100)] \<noteq> []
   \<and> list_all (entry_ok offline)
        [fact_entry ''2023-12-31'' 2023 ''FY'' ''10-K'' (PInt 90),
         fact_entry ''2024-12-31'' 2024 ''FY'' ''10-K'' (PInt 100)]
   \<and> latest_annual_value offline
        (PList [fact_entry ''2023-12-31'' 2023 ''FY'' ''10-K'' (PInt 90),
                fact_entry ''2024-12-31'' 2024 ''FY'' ''10-K'' (PInt 100)])
      = Inr (fact_entry ''2024-12-31'' 2024 ''FY'' ''10-K'' (PInt 100))
   \<and> latest_annual_value offline
        (PList [fact_entry ''2024-12-31'' 2024 ''FY'' ''10-K'' (PInt 100),
                fact_entry ''2023-12-31'' 2023 ''FY'' ''10-K'' (PInt 90)])
      = Inr (fact_entry ''2024-12-31'' 2024 ''FY'' ''10-K'' (PInt 100))"
proof -
  let ?a = "fact_entry ''2023-12-31'' 2023 ''FY'' ''10-K'' (PInt 90)"
  let ?b = "fact_entry ''2024-12-31'' 2024 ''FY'' ''10-K'' (PInt 100)"
  have ok: "list_all (entry_ok offline) [?a, ?b]" by code_simp
  then have ok': "\<forall>v\<in>set [?a, ?b]. entry_ok offline v" by (simp add: list_all_iff)
  have ne: "[?a, ?b] \<noteq> []" by simp
  have A: "annual_entries [?a, ?b] = [?a, ?b]" by code_simp
  have lt: "entry_key offline ?a < entry_key offline ?b" by code_simp
  have ab: "?a \<noteq> ?b" by code_simp
  have r1: "latest_annual_value offline (PList [?a, ?b]) = Inr ?b" by code_simp
  from latest_annual_value_first_maximal [OF ne ok'] obtain e where
    e: "latest_annual_value offline (PList [?a, ?b]) = Inr e"
    and indep: "(\<forall>v\<in>set (annual_entries [?a, ?b]). v \<noteq> e \<longrightarrow> entry_key offline v < entry_key offline e) \<longrightarrow>
           (\<forall>vs'. set vs' = set [?a, ?b] \<longrightarrow> latest_annual_value offline (PList vs') = Inr e)"
    by blast
  from e r1 have eb: "e = ?b" by simp
  have "\<forall>v\<in>set (annual_entries [?a, ?b]). v \<noteq> ?b \<longrightarrow> entry_key offline v < entry_key offline ?b"
    unfolding A using lt by simp
  with indep eb have "\<forall>vs'. set vs' = set [?a, ?b] \<longrightarrow> latest_annual_value offline (PList vs') = Inr ?b"
    by simp
  moreover have "set [?b, ?a] = set [?a, ?b]" by auto
  ultimately have r2: "latest_annual_value offline (PList [?b, ?a]) = Inr ?b" by blast
  show ?thesis using ne ok r1 r2 by blast
qed

text \<open>
  The maximal entry need not be unique: a 10-K and its amendment 10-K/A carry the same end
  date and fiscal year, and the entry returned is whichever comes first in the input.
\<close>

theorem latest_annual_value_tie_counterexample:
  "entry_key offline (fact_entry ''2024-12-31'' 2024 ''FY'' ''10-K'' (PInt 100))
     = entry_key offline (fact_entry ''2024-12-31'' 2024 ''FY'' ''10-K/A'' (PInt 120))
   \<and> fact_entry ''2024-12-31'' 2024 ''FY'' ''10-K'' (PInt 100)
       \<noteq> fact_entry ''2024-12-31'' 2024 ''FY'' ''10-K/A'' (PInt 120)
   \<and> latest_annual_value offline
        (PList [fact_entry ''2024-12-31'' 2024 ''FY'' ''10-K'' (PInt 100),
                fact_entry ''2024-12-31'' 2024 ''FY'' ''10-K/A'' (PInt 120)])
      = Inr (fact_entry ''2024-12-31'' 2024 ''FY'' ''10-K'' (PInt 100))
   \<and> latest_annual_value offline
        (PList [fact_entry ''2024-12-31'' 2024 ''FY'' ''10-K/A'' (PInt 120),
                fact_entry ''2024-12-31'' 2024 ''FY'' ''10-K'' (PInt 100)])
      = Inr (fact_entry ''2024-12-31'' 2024 ''FY'' ''10-K/A'' (PInt 120))"
  by code_simp

section \<open>Filing facts: total debt and the derived ratios\<close>

lemma http_demo_facts:
  "http_json (demo facts) (facts_url ''0000320193'') [] = Some facts"
  by (simp add: demo_def offline_def facts_url_def SEC_BASE_def SEC_TICKER_CIK_def)

lemma field_sec_absent:
  "http_json E (facts_url cik) [] = None \<Longrightarrow> field (pull_sec_financials E cik) k = PNone"
  by (simp add: pull_sec_financials_def field_def dict_get_def)

text \<open>The extraction results for the three example filers.\<close>

lemma sec_no_debt:
  "pull_sec_financials (demo facts_no_debt) ''0000320193'' =
     PDict [(''revenue'', PNone), (''gross_profit'', PNone), (''operating_income'', PNone),
            (''net_income'', PNone), (''cash'', PNone), (''current_assets'', PFloat 0),
            (''current_liabilities'', PFloat 50), (''equity'', PFloat 100),
            (''total_debt'', PNone), (''gross_margin'', PNone), (''operating_margin'', PNone),
            (''current_ratio'', PNone), (''debt_to_equity'', PFloat 0)]"
  by code_simp

lemma sec_zero_debt:
  "pull_sec_financials (demo facts_zero_debt) ''0000320193'' =
     PDict [(''revenue'', PNone), (''gross_profit'', PNone), (''operating_income'', PNone),
            (''net_income'', PNone), (''cash'', PNone), (''current_assets'', PNone),
            (''current_liabilities'', PNone), (''equity'', PFloat 100),
            (''total_debt'', PNone), (''gross_margin'', PNone), (''operating_margin'', PNone),
            (''current_ratio'', PNone), (''debt_to_equity'', PFloat 0)]"
  by code_simp

lemma debt_two: "present_values (debt_components (demo facts_two_debts) facts_two_debts) = [40, 2]"
  by code_simp

lemma debt_zero: "present_values (debt_components (demo facts_zero_debt) facts_zero_debt) = [0]"
  by code_simp

lemma debt_none: "present_values (debt_components (demo facts_no_debt) facts_no_debt) = []"
  by code_simp

text \<open>
  The margins follow the invariant of the data model: each is present exactly when the
  revenue is present and not zero and the numerator is present.
\<close>

lemma gross_margin_present_iff:
  "field (pull_sec_financials E cik) ''gross_margin'' \<noteq> PNone \<longleftrightarrow>
     field (pull_sec_financials E cik) ''revenue'' \<noteq> PNone
     \<and> field (pull_sec_financials E cik) ''gross_profit'' \<noteq> PNone
     \<and> field (pull_sec_financials E cik) ''revenue'' \<noteq> PFloat 0"
  by (simp add: pull_sec_financials_def field_def dict_get_def Let_def opt_val_def otruthy_def
      split: option.splits)

lemma operating_margin_present_iff:
  "field (pull_sec_financials E cik) ''operating_margin'' \<noteq> PNone \<longleftrightarrow>
     field (pull_sec_financials E cik) ''revenue'' \<noteq> PNone
     \<and> field (pull_sec_financials E cik) ''operating_income'' \<noteq> PNone
     \<and> field (pull_sec_financials E cik) ''revenue'' \<noteq> PFloat 0"
  by (simp add: pull_sec_financials_def field_def dict_get_def Let_def opt_val_def otruthy_def
      split: option.splits)

text \<open>
  Claim C2 at a filer that reports equity 100, current assets 0, current liabilities 50 and
  no debt tag. No debt component is present and \<open>total_debt\<close> is absent, yet
  \<open>debt_to_equity\<close> is the computed zero \<open>0 / 100\<close>: the sum the code divides is a number
  even when nothing was summed, so its test \<open>total_debt is not None\<close> never fails. And
  \<open>current_ratio\<close> is absent although its numerator is present and its denominator is
  present and not zero: the code tests the numerator for truth, not for presence.
\<close>

theorem ratio_presence_no_debt:
  "present_values (debt_components (demo facts_no_debt) facts_no_debt) = []
   \<and> field (pull_sec_financials (demo facts_no_debt) ''0000320193'') ''total_debt'' = PNone
   \<and> field (pull_sec_financials (demo facts_no_debt) ''0000320193'') ''equity'' = PFloat 100
   \<and> field (pull_sec_financials (demo facts_no_debt) ''0000320193'') ''debt_to_equity'' = PFloat 0
   \<and> field (pull_sec_financials (demo facts_no_debt) ''0000320193'') ''current_assets'' = PFloat 0
   \<and> field (pull_sec_financials (demo facts_no_debt) ''0000320193'') ''current_liabilities'' = PFloat 50
   \<and> field (pull_sec_financials (demo facts_no_debt) ''0000320193'') ''current_ratio'' = PNone"
  by (simp add: sec_no_debt debt_none field_def dict_get_def)

text \<open>
  Claim C3, as the code has it. When the filing document was fetched, \<open>total_debt\<close> is the
  sum of the debt components that are present if that sum is not zero, and absent if it is
  zero; in particular it is absent when no component is present, and it is never zero.
\<close>

theorem total_debt_sum_or_absent:
  assumes "http_json E (facts_url cik) [] = Some data" and "truthy data"
  shows "field (pull_sec_financials E cik) ''total_debt'' =
           (if sum_list (present_values (debt_components E data)) = 0 then PNone
            else PFloat (sum_list (present_values (debt_components E data))))
       \<and> (present_values (debt_components E data) = [] \<longrightarrow>
            field (pull_sec_financials E cik) ''total_debt'' = PNone)
       \<and> field (pull_sec_financials E cik) ''total_debt'' \<noteq> PFloat 0"
  using assms
  by (simp add: pull_sec_financials_def field_def dict_get_def Let_def total_debt_of_def)

text \<open>A filer with long-term debt 40 and short-term borrowings 2.\<close>

theorem total_debt_sum_or_absent_witness:
  "http_json (demo facts_two_debts) (facts_url ''0000320193'') [] = Some facts_two_debts
   \<and> truthy facts_two_debts
   \<and> present_values (debt_components (demo facts_two_debts) facts_two_debts) = [40, 2]
   \<and> field (pull_sec_financials (demo facts_two_debts) ''0000320193'') ''total_debt'' = PFloat 42"
proof -
  have t: "truthy facts_two_debts" by (simp add: facts_two_debts_def facts_doc_def)
  show ?thesis
    using total_debt_sum_or_absent [OF http_demo_facts t] http_demo_facts t
    by (simp add: debt_two)
qed

text \<open>
  A filer that reports a long-term debt of zero: one component is present, the sum of the
  present components is 0, and \<open>total_debt\<close> is absent, not that sum.
\<close>

theorem total_debt_zero_counterexample:
  "present_values (debt_components (demo facts_zero_debt) facts_zero_debt) = [0]
   \<and> field (pull_sec_financials (demo facts_zero_debt) ''0000320193'') ''total_debt'' = PNone
   \<and> field (pull_sec_financials (demo facts_zero_debt) ''0000320193'') ''total_debt''
       \<noteq> PFloat (sum_list (present_values (debt_components (demo facts_zero_debt) facts_zero_debt)))"
  by (simp add: sec_zero_debt debt_zero field_def dict_get_def)

section \<open>Price metrics\<close>

text \<open>On positive closes the log returns are always computed.\<close>

lemma logrets_positive:
  "\<forall>x\<in>set xs. 0 < x \<Longrightarrow> \<exists>lr. logrets xs = Inr lr"
proof (induction xs rule: logrets.induct)
  case (1 a b rest)
  then have "0 < a" "0 < b" by simp_all
  then have pos: "\<not> b / a \<le> 0" by (simp add: divide_le_0_iff)
  have nz: "a \<noteq> 0 \<and> b \<noteq> 0" using \<open>0 < a\<close> \<open>0 < b\<close> by simp
  from "1.IH"(1) [OF nz pos] "1.prems" obtain lr where "logrets (b # rest) = Inr lr" by auto
  with pos nz show ?case by simp
qed simp_all

text \<open>
  Claim C5. When the fetched close series is empty (the table has no rows, or every close
  is missing), \<open>pull_price_trend_yf\<close> returns a dict with the single key \<open>error\<close> and
  none of the fields latest\_close, oldest\_close, pct\_change, sma20, sma50,
  annualized\_vol, sample. So does every exception raised in the fetch or the computation:
  the result is \<open>{"error": str(e)}\<close>. The function returns a value in every case; no
  exception leaves it.
\<close>

theorem price_empty_or_failed_is_error_shape:
  "(prices_fetched E symbol days rows \<and> dropna rows = [] \<longrightarrow>
      pull_price_trend_yf E symbol days =
        PDict [(''error'', PStr (if rows = [] then ''No price data returned''
                                 else ''list index out of range''))]
      \<and> list_all (\<lambda>k. field (pull_price_trend_yf E symbol days) k = PNone) numeric_fields)
   \<and> (\<forall>e. price_trend_body E symbol days = Inl e \<longrightarrow>
      pull_price_trend_yf E symbol days = PDict [(''error'', PStr (str_exn e))]
      \<and> list_all (\<lambda>k. field (pull_price_trend_yf E symbol days) k = PNone) numeric_fields)"
  by (auto simp: prices_fetched_def pull_price_trend_yf_def price_trend_body_def error_shape_def
      numeric_fields_def field_def dict_get_def)

text \<open>A source that answers with an empty table, and a source that cannot be reached.\<close>

theorem price_empty_or_failed_is_error_shape_witness:
  "prices_fetched (price_world []) ''AAPL'' 60 [] \<and> dropna [] = []
   \<and> pull_price_trend_yf (price_world []) ''AAPL'' 60 = PDict [(''error'', PStr ''No price data returned'')]
   \<and> price_trend_body offline ''AAPL'' 60 = Inl (Raise FetchError ''no connection'')
   \<and> pull_price_trend_yf offline ''AAPL'' 60 = PDict [(''error'', PStr ''no connection'')]"
proof -
  have f: "prices_fetched (price_world []) ''AAPL'' 60 []"
    by (simp add: prices_fetched_def price_world_def offline_def)
  have b: "price_trend_body offline ''AAPL'' 60 = Inl (Raise FetchError ''no connection'')"
    by (simp add: price_trend_body_def offline_def)
  show ?thesis
    using price_empty_or_failed_is_error_shape [of "price_world []" "''AAPL''" 60 "[]"]
      price_empty_or_failed_is_error_shape [of offline "''AAPL''" 60 "[]"] f b
    by simp
qed

text \<open>
  Claim C6, as the code has it. For a close series that is not empty once the missing
  values are dropped and on which the log returns are computed without error (no two
  consecutive non-zero closes of opposite sign; every series of positive closes is one),
  \<open>sma20\<close> is present exactly when there are at least 20 observations and is then the mean
  of the last 20, likewise \<open>sma50\<close> with 50, and \<open>pct_change\<close> is absent exactly when the
  oldest close is zero.
\<close>

theorem sma_and_pct_change_presence:
  assumes "prices_fetched E symbol days rows" and "dropna rows \<noteq> []"
    and "logrets (map snd (dropna rows)) = Inr lr"
  shows "(field (pull_price_trend_yf E symbol days) ''sma20'' \<noteq> PNone \<longleftrightarrow> 20 \<le> length (dropna rows))
    \<and> (20 \<le> length (dropna rows) \<longrightarrow>
         field (pull_price_trend_yf E symbol days) ''sma20''
           = PFloat (mean (tail 20 (map snd (dropna rows)))))
    \<and> (field (pull_price_trend_yf E symbol days) ''sma50'' \<noteq> PNone \<longleftrightarrow> 50 \<le> length (dropna rows))
    \<and> (50 \<le> length (dropna rows) \<longrightarrow>
         field (pull_price_trend_yf E symbol days) ''sma50''
           = PFloat (mean (tail 50 (map snd (dropna rows)))))
    \<and> (field (pull_price_trend_yf E symbol days) ''pct_change'' = PNone
         \<longleftrightarrow> snd (hd (dropna rows)) = 0)"
proof -
  from assms(2) have "rows \<noteq> []" by auto
  with assms show ?thesis
    by (simp add: prices_fetched_def pull_price_trend_yf_def price_trend_body_def Let_def
        field_def dict_get_def)
qed

lemma dropna_rising: "dropna rising_rows = map (\<lambda>p. (fst p, the (snd p))) rising_rows"
  by (simp add: rising_rows_def)

text \<open>Twenty rising closes from 100 to 119.\<close>

theorem sma_and_pct_change_presence_witness:
  "prices_fetched (price_world rising_rows) ''AAPL'' 60 rising_rows
   \<and> dropna rising_rows \<noteq> []
   \<and> (\<exists>lr. logrets (map snd (dropna rising_rows)) = Inr lr)
   \<and> length (dropna rising_rows) = 20
   \<and> field (pull_price_trend_yf (price_world rising_rows) ''AAPL'' 60) ''sma20'' = PFloat (219 / 2)
   \<and> field (pull_price_trend_yf (price_world rising_rows) ''AAPL'' 60) ''sma50'' = PNone
   \<and> field (pull_price_trend_yf (price_world rising_rows) ''AAPL'' 60) ''pct_change'' \<noteq> PNone"
proof -
  have f: "prices_fetched (price_world rising_rows) ''AAPL'' 60 rising_rows"
    by (simp add: prices_fetched_def price_world_def offline_def)
  have vals: "map snd (dropna rising_rows) =
      [100, 101, 102, 103, 104, 105, 106, 107, 108, 109, 110, 111, 112, 113, 114, 115, 116, 117, 118, 119]"
    by (simp add: rising_rows_def)
  have ne: "dropna rising_rows \<noteq> []" using vals by auto
  have len: "length (dropna rising_rows) = 20"
    using arg_cong [OF vals, of length] by simp
  have "\<exists>lr. logrets (map snd (dropna rising_rows)) = Inr lr"
    unfolding vals by (rule logrets_positive) simp
  then obtain lr where lr: "logrets (map snd (dropna rising_rows)) = Inr lr" ..
  have hd0: "snd (hd (dropna rising_rows)) = 100" by (simp add: rising_rows_def)
  have m: "mean (tail 20 (map snd (dropna rising_rows))) = 219 / 2"
    unfolding vals by (simp add: mean_def tail_def)
  show ?thesis
    using sma_and_pct_change_presence [OF f ne lr] f ne lr len hd0 m by auto
qed

text \<open>
  Twenty observations of which the first is negative: \<open>math.log\<close> raises on the first
  ratio, the \<open>except\<close> clause returns the error shape, and \<open>sma20\<close> is absent although
  there are 20 observations; \<open>pct_change\<close> is absent although the oldest close is not
  zero.
\<close>

theorem sma_negative_start_counterexample:
  "prices_fetched (price_world negative_start_rows) ''CL=F'' 60 negative_start_rows
   \<and> length (dropna negative_start_rows) = 20
   \<and> snd (hd (dropna negative_start_rows)) \<noteq> 0
   \<and> pull_price_trend_yf (price_world negative_start_rows) ''CL=F'' 60
       = PDict [(''error'', PStr ''math domain error'')]
   \<and> field (pull_price_trend_yf (price_world negative_start_rows) ''CL=F'' 60) ''sma20'' = PNone
   \<and> field (pull_price_trend_yf (price_world negative_start_rows) ''CL=F'' 60) ''pct_change'' = PNone"
proof -
  have f: "prices_fetched (price_world negative_start_rows) ''CL=F'' 60 negative_start_rows"
    by (simp add: prices_fetched_def price_world_def offline_def)
  have d: "dropna negative_start_rows = map (\<lambda>p. (fst p, the (snd p))) negative_start_rows"
    by (simp add: negative_start_rows_def)
  have len: "length (dropna negative_start_rows) = 20"
    unfolding d by (simp add: negative_start_rows_def)
  have h: "snd (hd (dropna negative_start_rows)) = - 37"
    unfolding d by (simp add: negative_start_rows_def)
  have l: "logrets (map snd (dropna negative_start_rows)) = Inl (Raise ValueError ''math domain error'')"
    unfolding d by (simp add: negative_start_rows_def)
  have ne: "negative_start_rows \<noteq> []" "dropna negative_start_rows \<noteq> []"
    using len by auto
  have r: "pull_price_trend_yf (price_world negative_start_rows) ''CL=F'' 60
       = PDict [(''error'', PStr ''math domain error'')]"
    using f l ne
    by (simp add: prices_fetched_def pull_price_trend_yf_def price_trend_body_def Let_def error_shape_def)
  show ?thesis using f len h r by (simp add: field_def dict_get_def)
qed

section \<open>News digest\<close>

lemma map_e_news_key:
  "map_e news_key xs = Inr keyed \<Longrightarrow> map snd keyed = xs"
proof (induction xs arbitrary: keyed)
  case Nil
  then show ?case by auto
next
  case (Cons x xs)
  then show ?case
    by (auto simp: news_key_def split: sum.splits)
qed

lemma set_sort_desc [simp]: "set (sort_desc kvs) = set kvs"
  by (simp add: sort_desc_def)

lemma mset_sort_desc [simp]: "mset (sort_desc kvs) = mset kvs"
  by (simp add: sort_desc_def)

lemma sort_desc_descending: "sorted_wrt (\<lambda>a b. fst b \<le> fst a) (sort_desc kvs)"
proof -
  have "sorted (map fst (sort_key fst (rev kvs)))" by (rule sorted_sort_key)
  then have "sorted_wrt (\<lambda>a b. fst a \<le> fst b) (sort_key fst (rev kvs))"
    by (simp add: sorted_wrt_map)
  then show ?thesis by (simp add: sort_desc_def sorted_wrt_rev)
qed

lemma py_sorted_desc_items:
  "py_sorted_desc kvs = Inr ys \<Longrightarrow> set ys \<subseteq> snd ` set kvs"
  by (force simp: py_sorted_desc_def split: if_splits)

lemma news_ts_enrich [simp]: "news_ts (enrich E x) = news_ts x"
proof (cases x)
  case (PDict d)
  have "map_of (dict_set d k v) k' = (if k' = k then Some v else map_of d k')" for k k' v
    by (induction d k v rule: dict_set.induct) auto
  then show ?thesis using PDict
    by (simp add: news_ts_def enrich_def dict_get_def Let_def split: option.splits)
qed (simp_all add: enrich_def)


lemma news_key_numeric:
  "numeric_ts x \<Longrightarrow> news_key x = Inr (ts_key x, x) \<and> is_num (ts_key x) \<and> num_val (ts_key x) = news_ts x"
  by (cases x) (simp_all add: numeric_ts_def news_key_def ts_key_def news_ts_def)

lemma sorted_wrt_short: "length xs \<le> 1 \<Longrightarrow> sorted_wrt P xs"
  by (cases xs) auto

lemma news_digest_numeric:
  assumes num: "\<forall>x\<in>set xs. numeric_ts x"
  shows "\<exists>ys. mset ys = mset xs
      \<and> sorted_wrt (\<lambda>a b. news_ts b \<le> news_ts a) ys
      \<and> news_digest E xs =
          Inr (PDict [(''count'', PInt (int (length xs))),
                      (''sample'', PList (map (enrich E) (take 20 ys)))])"
proof -
  let ?keyed = "map (\<lambda>x. (ts_key x, x)) xs"
  let ?kvs = "map (\<lambda>x. (news_ts x, x)) xs"
  have k: "map_e news_key xs = Inr ?keyed"
    using num by (intro map_e_total) (simp add: news_key_numeric)
  have alln: "list_all (\<lambda>kv. is_num (fst kv)) ?keyed"
    using num by (simp add: list_all_iff news_key_numeric)
  have conv: "map (\<lambda>kv. (num_val (fst kv), snd kv)) ?keyed = ?kvs"
    using num by (simp add: news_key_numeric)
  show ?thesis
  proof (cases "length xs \<le> 1")
    case True
    then have "py_sorted_desc ?keyed = Inr xs"
      by (simp add: py_sorted_desc_def comp_def)
    with k True show ?thesis
      by (intro exI [of _ xs]) (simp add: news_digest_def sorted_wrt_short)
  next
    case False
    let ?ys = "map snd (sort_desc ?kvs)"
    have "py_sorted_desc ?keyed =
        Inr (map snd (sort_desc (map (\<lambda>kv. (num_val (fst kv), snd kv)) ?keyed)))"
      unfolding py_sorted_desc_def using False alln by (simp only: length_map if_True if_False)
    then have s: "py_sorted_desc ?keyed = Inr ?ys"
      by (simp only: conv)
    have m: "mset ?ys = mset xs"
    proof -
      have "mset ?ys = image_mset snd (mset (sort_desc ?kvs))" by simp
      also have "\<dots> = image_mset snd (mset ?kvs)" by simp
      also have "\<dots> = mset xs" by (simp add: image_mset.compositionality comp_def)
      finally show ?thesis .
    qed
    have fs: "\<forall>kv\<in>set (sort_desc ?kvs). fst kv = news_ts (snd kv)" by auto
    have "sorted_wrt (\<lambda>a b. fst b \<le> fst a) (sort_desc ?kvs)" by (rule sort_desc_descending)
    then have "sorted_wrt (\<lambda>a b. news_ts (snd b) \<le> news_ts (snd a)) (sort_desc ?kvs)"
      using fs by (auto elim!: sorted_wrt_mono_rel [rotated])
    then have srt: "sorted_wrt (\<lambda>a b. news_ts b \<le> news_ts a) ?ys"
      by (simp add: sorted_wrt_map)
    from k s m srt show ?thesis
      by (intro exI [of _ ?ys]) (simp add: news_digest_def)
  qed
qed


lemma news_pull_list:
  "news_fetched E symbol days (PList xs) \<Longrightarrow> xs \<noteq> [] \<Longrightarrow>
     pull_finnhub_news E symbol days = news_digest E xs"
  by (simp add: news_fetched_def pull_finnhub_news_def)

lemma news_world_fetched:
  "news_fetched (news_world (Some data)) ''AAPL'' 30 data"
  by (simp add: news_fetched_def news_world_def offline_def max_delta_days_def max_ordinal_def)

text \<open>
  Claim C7, as the code has it. For every non-empty list of news items fetched, each a dict
  whose \<open>datetime\<close> is a number or missing (a missing one counts as 0), the sample is the
  first 20 items of the list sorted by timestamp descending, each passed through the
  enrichment loop, and \<open>count\<close> is the length of the whole list.
\<close>

theorem news_sample_sorted_truncated:
  assumes "news_fetched E symbol days (PList xs)" and "xs \<noteq> []"
    and "\<forall>x\<in>set xs. numeric_ts x"
  shows "\<exists>ys. mset ys = mset xs
      \<and> sorted_wrt (\<lambda>a b. news_ts b \<le> news_ts a) ys
      \<and> pull_finnhub_news E symbol days =
          Inr (PDict [(''count'', PInt (int (length xs))),
                      (''sample'', PList (map (enrich E) (take 20 ys)))])
      \<and> length (take 20 ys) = min 20 (length xs)
      \<and> sorted_wrt (\<lambda>a b. news_ts b \<le> news_ts a) (map (enrich E) (take 20 ys))"
proof -
  from news_digest_numeric [OF assms(3), of E] obtain ys where
    m: "mset ys = mset xs" and srt: "sorted_wrt (\<lambda>a b. news_ts b \<le> news_ts a) ys"
    and d: "news_digest E xs =
          Inr (PDict [(''count'', PInt (int (length xs))),
                      (''sample'', PList (map (enrich E) (take 20 ys)))])"
    by blast
  have len: "length ys = length xs" using m by (rule mset_eq_length)
  have "sorted_wrt (\<lambda>a b. news_ts b \<le> news_ts a) (take 20 ys)"
    using srt by (rule sorted_wrt_take)
  then have "sorted_wrt (\<lambda>a b. news_ts b \<le> news_ts a) (map (enrich E) (take 20 ys))"
    by (simp add: sorted_wrt_map)
  with m srt d len news_pull_list [OF assms(1,2)] show ?thesis
    by (intro exI [of _ ys]) (simp add: min.commute)
qed

text \<open>Twenty-five items with distinct timestamps: 20 in the sample, descending, count 25.\<close>

theorem news_sample_sorted_truncated_witness:
  "news_fetched (news_world (Some (PList news25))) ''AAPL'' 30 (PList news25)
   \<and> news25 \<noteq> []
   \<and> list_all numeric_ts news25
   \<and> distinct (map news_ts news25)
   \<and> length news25 = 25
   \<and> (\<exists>ys. mset ys = mset news25
        \<and> sorted_wrt (\<lambda>a b. news_ts b \<le> news_ts a) ys
        \<and> pull_finnhub_news (news_world (Some (PList news25))) ''AAPL'' 30 =
            Inr (PDict [(''count'', PInt 25),
                        (''sample'', PList (map (enrich (news_world (Some (PList news25)))) (take 20 ys)))])
        \<and> length (take 20 ys) = 20
        \<and> sorted_wrt (\<lambda>a b. news_ts b \<le> news_ts a)
            (map (enrich (news_world (Some (PList news25)))) (take 20 ys)))"
proof -
  have len: "length news25 = 25" by (simp add: news25_def)
  have ne: "news25 \<noteq> []" using len by auto
  have num: "list_all numeric_ts news25"
    by (simp add: news25_def news_item_def numeric_ts_def dict_get_def)
  then have num': "\<forall>x\<in>set news25. numeric_ts x" by (simp add: list_all_iff)
  have dist: "distinct (map news_ts news25)"
    by (simp add: news25_def news_item_def news_ts_def dict_get_def)
  show ?thesis
    using news_sample_sorted_truncated [OF news_world_fetched ne num'] news_world_fetched
      ne num dist len
    by simp
qed

text \<open>
  A successfully fetched empty list gives no digest: the result is the error shape, not
  \<open>count = 0\<close> with an empty sample.
\<close>

theorem news_empty_list_counterexample:
  "news_fetched (news_world (Some (PList []))) ''AAPL'' 30 (PList [])
   \<and> pull_finnhub_news (news_world (Some (PList []))) ''AAPL'' 30
       = Inr (PDict [(''error'', PStr ''Failed to get news'')])
   \<and> pull_finnhub_news (news_world (Some (PList []))) ''AAPL'' 30
       \<noteq> Inr (PDict [(''count'', PInt 0), (''sample'', PList [])])"
  by (simp add: news_fetched_def news_world_def offline_def max_delta_days_def max_ordinal_def
      pull_finnhub_news_def error_shape_def)

text \<open>
  Claim C10. When the news source answers with an empty list, the sampler returns
  \<open>{"error": "Failed to get news"}\<close>, the very result it returns when the request fails.
\<close>

theorem empty_news_is_error_shape:
  assumes "news_fetched E symbol days (PList [])"
  shows "pull_finnhub_news E symbol days = Inr (PDict [(''error'', PStr ''Failed to get news'')])
     \<and> pull_finnhub_news (E\<lparr>http_json := (\<lambda>url params. None)\<rparr>) symbol days
         = pull_finnhub_news E symbol days"
  using assms
  by (simp add: news_fetched_def pull_finnhub_news_def error_shape_def news_params_def)

theorem empty_news_is_error_shape_witness:
  "news_fetched (news_world (Some (PList []))) ''MSFT'' 7 (PList [])
   \<and> pull_finnhub_news (news_world (Some (PList []))) ''MSFT'' 7
       = Inr (PDict [(''error'', PStr ''Failed to get news'')])
   \<and> pull_finnhub_news (news_world None) ''MSFT'' 7
       = Inr (PDict [(''error'', PStr ''Failed to get news'')])"
proof -
  have f: "news_fetched (news_world (Some (PList []))) ''MSFT'' 7 (PList [])"
    by (simp add: news_fetched_def news_world_def offline_def max_delta_days_def max_ordinal_def)
  have w: "(news_world (Some (PList [])))\<lparr>http_json := (\<lambda>url params. None)\<rparr> = news_world None"
    by (simp add: news_world_def offline_def)
  show ?thesis
    using empty_news_is_error_shape [OF f] f w by simp
qed

lemma map_of_dict_set: "map_of (dict_set d k v) = (map_of d)(k \<mapsto> v)"
  by (induction d k v rule: dict_set.induct) (auto simp: fun_eq_iff)

lemma keys_dict_set:
  "map fst (dict_set d k v) = (if k \<in> fst ` set d then map fst d else map fst d @ [k])"
  by (induction d k v rule: dict_set.induct) (auto simp: image_iff)

lemma enrich_unparseable: "iso_of E it = None \<Longrightarrow> enrich E it = it"
  by (cases it) (auto simp: iso_of_def enrich_def Let_def split: if_splits)

lemma enrich_parseable:
  "iso_of E it = Some s \<Longrightarrow>
     \<exists>d. it = PDict d \<and> enrich E it = PDict (dict_set d ''datetime_iso'' (PStr s))"
  by (cases it) (auto simp: iso_of_def enrich_def Let_def split: if_splits)

text \<open>
  Claim C8 at a fetched list of two items, one with a numeric timestamp and one whose
  timestamp is the text \<open>n/a\<close>. The enrichment loop tolerates such a timestamp: it would
  leave the item exactly as it is. But the sort that precedes the loop compares the text
  with the number and raises TypeError, which no \<open>try\<close> guards: the exception leaves
  \<open>pull_finnhub_news\<close>, no sample is returned, and the item is not retained.
\<close>

theorem news_mixed_timestamps_raise:
  "news_fetched (news_world (Some (PList undated_items))) ''AAPL'' 30 (PList undated_items)
   \<and> iso_of (news_world (Some (PList undated_items)))
         (PDict [(''headline'', PStr ''Undated''), (''datetime'', PStr ''n/a'')]) = None
   \<and> enrich (news_world (Some (PList undated_items)))
         (PDict [(''headline'', PStr ''Undated''), (''datetime'', PStr ''n/a'')])
       = PDict [(''headline'', PStr ''Undated''), (''datetime'', PStr ''n/a'')]
   \<and> pull_finnhub_news (news_world (Some (PList undated_items))) ''AAPL'' 30
       = Inl (Raise TypeError ''< not supported between instances'')"
proof -
  let ?W = "news_world (Some (PList undated_items))"
  have f: "news_fetched ?W ''AAPL'' 30 (PList undated_items)" by (rule news_world_fetched)
  have ne: "undated_items \<noteq> []" by (simp add: undated_items_def)
  have i: "iso_of ?W (PDict [(''headline'', PStr ''Undated''), (''datetime'', PStr ''n/a'')]) = None"
    by (simp add: iso_of_def dict_get_def)
  have e: "enrich ?W (PDict [(''headline'', PStr ''Undated''), (''datetime'', PStr ''n/a'')])
       = PDict [(''headline'', PStr ''Undated''), (''datetime'', PStr ''n/a'')]"
    using i by (rule enrich_unparseable)
  have "news_digest ?W undated_items = Inl (Raise TypeError ''< not supported between instances'')"
    by (simp add: news_digest_def undated_items_def news_key_def dict_get_def py_sorted_desc_def)
  then have r: "pull_finnhub_news ?W ''AAPL'' 30
       = Inl (Raise TypeError ''< not supported between instances'')"
    using news_pull_list [OF f ne] by simp
  show ?thesis
    by (intro conjI f i e r)
qed

section \<open>Aggregation and persistence\<close>

lemma json_decode_encode: "json_decode (json_encode v) = detuple v"
proof (induction v)
  case (PDict d)
  have "map (map_prod id json_decode \<circ> map_prod id json_encode) d = map (map_prod id detuple) d"
  proof (rule map_cong [OF refl])
    fix kv assume mem: "kv \<in> set d"
    obtain k v where kv: "kv = (k, v)" by (cases kv)
    have "json_decode (json_encode v) = detuple v"
      using PDict [of "(k, v)" v] mem kv by simp
    then show "(map_prod id json_decode \<circ> map_prod id json_encode) kv = map_prod id detuple kv"
      by (simp add: kv)
  qed
  then show ?case by simp
qed simp_all


lemma collect_unresolved:
  "resolve_ticker_to_cik E ticker = None \<Longrightarrow>
     collect_raw_data E ticker = Inl (Raise TypeError ''NoneType object is not subscriptable'')"
  by (simp add: collect_raw_data_def)


lemma resolve_unknown_ticker: "resolve_ticker_to_cik (demo facts) ''ZZZZ'' = None"
  by code_simp


lemma resolve_offline: "resolve_ticker_to_cik offline ticker = None"
  by (simp add: resolve_ticker_to_cik_def resolve_body_def offline_def)


text \<open>
  Claim C1 at a ticker the registry does not list, and at any ticker when the registry
  cannot be fetched: \<open>resolve_ticker_to_cik\<close> returns \<open>None\<close>, and \<open>collect_raw_data\<close>
  subscripts it with \<open>"cik"\<close> before any other component is called. The TypeError leaves
  \<open>collect_raw_data\<close>; no bundle is returned, and the price and news fetches are never
  attempted.
\<close>

theorem collect_raw_data_unresolved_raises:
  "resolve_ticker_to_cik (demo facts_no_debt) ''ZZZZ'' = None
   \<and> collect_raw_data (demo facts_no_debt) ''ZZZZ''
       = Inl (Raise TypeError ''NoneType object is not subscriptable'')
   \<and> resolve_ticker_to_cik offline ''AAPL'' = None
   \<and> collect_raw_data offline ''AAPL''
       = Inl (Raise TypeError ''NoneType object is not subscriptable'')"
  by (simp add: collect_unresolved resolve_unknown_ticker resolve_offline)


text \<open>
  Claim C9, as the code has it. Writing a value with \<open>persist_raw_json\<close> and reading the
  written path back with \<open>load_raw_json\<close> yields the value with every tuple replaced by
  a list of the same elements; everything else is restored as it was.
\<close>

theorem persist_then_load_detuples:
  "load_raw_json
     (snd (persist_raw_json E fs ticker data out_dir filename with_timestamp))
     (fst (persist_raw_json E fs ticker data out_dir filename with_timestamp))
   = Inr (detuple data)"
  by (simp add: persist_raw_json_def load_raw_json_def Let_def json_decode_encode)


lemma show_nat_numeral:
  "show_nat (numeral k) =
     (if (numeral k :: nat) < 10 then [digit_char (numeral k)]
      else show_nat (numeral k div 10) @ [digit_char (numeral k mod 10)])"
  by (rule show_nat.simps)

lemma show_int_cik: "show_int 320193 = ''320193''"
  by (simp add: show_int_def show_nat_numeral digit_char_def)

lemma zfill_cik: "zfill 10 ''320193'' = ''0000320193''"
  by (simp add: zfill_def numeral_eq_Suc)

lemma resolve_demo:
  "resolve_ticker_to_cik (demo facts) ''AAPL'' =
     Some (PDict [(''ticker'', PStr ''AAPL''), (''cik'', PStr ''0000320193''),
                  (''title'', PStr ''Apple Inc.'')])"
  by (simp add: resolve_ticker_to_cik_def resolve_body_def demo_def offline_def
      SEC_TICKER_CIK_def demo_registry_def upper_def upper_char_def py_str_def show_int_cik
      zfill_cik dict_get_def)

lemma sec_demo_empty: "pull_sec_financials (demo (PDict [])) ''0000320193'' = PDict []"
  using http_demo_facts [of "PDict []"] by (simp add: pull_sec_financials_def)


lemma prices_demo:
  "pull_price_trend_yf (demo facts) ''AAPL'' 60 =
     PDict [(''latest_close'', PFloat 10), (''oldest_close'', PFloat 10),
            (''pct_change'', PFloat 0), (''sma20'', PNone), (''sma50'', PNone),
            (''annualized_vol'', PNone),
            (''sample'', PList [PTuple [PStr ''2024-12-30'', PFloat 10]])]"
  by (simp add: pull_price_trend_yf_def price_trend_body_def demo_def offline_def tail_def
      price_pair_def)


lemma news_demo:
  "pull_finnhub_news (demo facts) ''AAPL'' 30 =
     Inr (PDict [(''count'', PInt 2),
                 (''sample'',
                    PList [PDict [(''headline'', PStr ''In milliseconds''),
                                  (''datetime'', PInt 1734000000000)],
                           PDict [(''headline'', PStr ''Results''),
                                  (''datetime'', PInt 1735000000),
                                  (''datetime_iso'', PStr ''2024-12-24 00:26:40'')]])])"
  by code_simp




lemma collect_demo: "collect_raw_data (demo (PDict [])) ''AAPL'' = Inr demo_bundle"
  by (simp add: collect_raw_data_def resolve_demo py_str_def sec_demo_empty prices_demo news_demo
      demo_bundle_def)

text \<open>
  The bundle collected for AAPL in the example world holds one \<open>(date, close)\<close> tuple in
  \<open>prices.sample\<close>; it comes back as a list, so the loaded bundle differs from the one
  written.
\<close>

theorem persist_then_load_tuple_counterexample:
  "collect_raw_data (demo (PDict [])) ''AAPL'' = Inr demo_bundle
   \<and> load_raw_json
       (snd (persist_raw_json (demo (PDict [])) (\<lambda>path. None) ''AAPL'' demo_bundle ''reports'' None True))
       (fst (persist_raw_json (demo (PDict [])) (\<lambda>path. None) ''AAPL'' demo_bundle ''reports'' None True))
     \<noteq> Inr demo_bundle"
proof -
  have "detuple demo_bundle \<noteq> demo_bundle"
    by (simp add: demo_bundle_def)
  then show ?thesis
    by (simp add: collect_demo persist_raw_json_def load_raw_json_def Let_def json_decode_encode)
qed

end
